theory Spec2Isabelle
  imports Complex_Main
begin

section \<open>Python arithmetic used by the strategy code\<close>

text \<open>
  The strategy code computes with Python floats. They are modelled as real numbers and
  the arithmetic is exact, with one exception: where the ladder sizes are cut to a number
  of decimal places, the result depends on how the float operations before the cut are
  rounded, so there each float operation is followed by the rounding \<open>fl\<close> of its
  exact result to a float. The rounding is a parameter of the model: every statement
  about sizes holds for any rounding. Time stamps (\<open>last_update\<close>), log output and the
  order reference strings the managers generate are left out of the records: no function
  modelled here reads them.
\<close>

datatype py_error = ZeroDivisionError | NameError | ConnectionError | ValueError

text \<open>Python's \<open>a / b\<close> on floats raises on a zero divisor.\<close>

definition py_div :: "real \<Rightarrow> real \<Rightarrow> py_error + real" where
  "py_div a b = (if b = 0 then Inl ZeroDivisionError else Inr (a / b))"

text \<open>Python's \<open>int(x)\<close> truncates towards zero.\<close>

definition py_int :: "real \<Rightarrow> int" where
  "py_int x = (if 0 \<le> x then \<lfloor>x\<rfloor> else \<lceil>x\<rceil>)"

text \<open>Python's \<open>round(x)\<close> rounds to the nearest integer, ties to the even one.\<close>

definition py_round :: "real \<Rightarrow> int" where
  "py_round x =
     (let f = \<lfloor>x\<rfloor>; d = x - of_int f
      in if d < 1 / 2 then f
         else if 1 / 2 < d then f + 1
         else if even f then f else f + 1)"

text \<open>Python's \<open>round(x, n)\<close> for a number \<open>n\<close> of decimal places.\<close>

definition py_round_nd :: "real \<Rightarrow> nat \<Rightarrow> real" where
  "py_round_nd x n = of_int (py_round (x * 10 ^ n)) / 10 ^ n"

text \<open>Python's \<open>x ** n\<close> for a float and an integer.\<close>

definition py_pow :: "real \<Rightarrow> int \<Rightarrow> py_error + real" where
  "py_pow x n =
     (if 0 \<le> n then Inr (x ^ nat n)
      else if x = 0 then Inl ZeroDivisionError
      else Inr (1 / x ^ nat (- n)))"

text \<open>Python's \<open>sub in s\<close> on strings.\<close>

fun str_startswith :: "string \<Rightarrow> string \<Rightarrow> bool" where
  "str_startswith [] s = True"
| "str_startswith (c # cs) [] = False"
| "str_startswith (c # cs) (d # ds) = (c = d \<and> str_startswith cs ds)"

fun str_contains :: "string \<Rightarrow> string \<Rightarrow> bool" where
  "str_contains sub [] = (sub = [])"
| "str_contains sub (c # cs) = (str_startswith sub (c # cs) \<or> str_contains sub cs)"

text \<open>Python's \<open>s.upper()\<close>, for the ASCII letters.\<close>

definition upper_char :: "char \<Rightarrow> char" where
  "upper_char c =
     (let n = (of_char c :: nat) in if 97 \<le> n \<and> n \<le> 122 then char_of (n - 32) else c)"

definition py_upper :: "string \<Rightarrow> string" where
  "py_upper s = map upper_char s"

text \<open>Python's \<open>str(i)\<close> for an integer, as an f-string prints it.\<close>

fun digits :: "nat \<Rightarrow> string" where
  "digits n =
     (if n < 10 then [char_of (48 + n)]
      else digits (n div 10) @ [char_of (48 + n mod 10)])"

declare digits.simps [simp del]

definition str_int :: "int \<Rightarrow> string" where
  "str_int i = (if i < 0 then CHR ''-'' # digits (nat (- i)) else digits (nat i))"

section \<open>State of one martingale strategy (account\_executor.py)\<close>

datatype ExecutionMode = NORMAL | POSITION_ONLY | EMERGENCY_EXIT | SUSPENDED

datatype Direction = LONG | SHORT | NET

datatype Offset = OPEN | CLOSE

datatype OrderType = LIMIT | TAKER

record MartinState =
  symbol :: string
  mode :: int
  avg_price :: real
  position_size :: real
  add_count :: int
  total_margin_used :: real
  active_orders :: "string list"
  execution_mode :: ExecutionMode

record OrderRequest =
  req_direction :: Direction
  req_offset :: Offset
  req_type :: OrderType
  req_price :: real
  req_volume :: real

text \<open>
  The fields of \<open>MartinManager\<close> that the modelled methods read. The methods that
  build an order call \<open>extract_vt_symbol(self.symbol)\<close>, a function of the framework
  that is not among the sources; \<open>symbol_parses\<close> tells whether it accepts the symbol
  of the manager (it raises \<open>ValueError\<close> otherwise).
\<close>

record MartinManager =
  m_symbol :: string
  m_mode :: int
  m_lever :: real
  m_first_margin :: real
  m_first_margin_add :: real
  m_adding_number :: int
  m_amount_multiplier :: real
  profit_target :: real
  m_opp_ratio :: real
  m_max_total_margin :: real
  size_tick :: real
  symbol_parses :: bool
  state :: MartinState

definition reset_martin_state :: "MartinManager \<Rightarrow> MartinManager" where
  "reset_martin_state m =
     m\<lparr>state := (state m)\<lparr>avg_price := 0, position_size := 0, add_count := 0,
                          total_margin_used := 0, active_orders := [],
                          execution_mode := NORMAL\<rparr>\<rparr>"

text \<open>
  \<open>MartinManager._round_to_size_tick\<close>:
  \<open>max(size_tick, round(volume / size_tick) * size_tick)\<close>.
\<close>

definition round_to_size_tick :: "real \<Rightarrow> real \<Rightarrow> py_error + real" where
  "round_to_size_tick tick vol =
     (case py_div vol tick of
        Inl e \<Rightarrow> Inl e
      | Inr q \<Rightarrow> Inr (max tick (of_int (py_round q) * tick)))"

text \<open>\<open>MartinManager._calculate_profit_order\<close>; \<open>None\<close> is Python's \<open>None\<close>.\<close>

definition calculate_profit_order ::
  "MartinManager \<Rightarrow> real \<Rightarrow> py_error + OrderRequest option" where
  "calculate_profit_order m current_price =
     (if avg_price (state m) \<le> 0 \<or> position_size (state m) \<le> 0 then Inr None
      else if length (active_orders (state m)) > 0 then Inr None
      else
        let profit_price =
              (if m_mode m = 1 then avg_price (state m) * (1 + profit_target m)
               else avg_price (state m) * (1 - profit_target m))
        in if m_mode m = 1 \<and> current_price < profit_price then Inr None
           else if m_mode m = 2 \<and> current_price > profit_price then Inr None
           else
             (case round_to_size_tick (size_tick m) (position_size (state m) * (9 / 10)) of
                Inl e \<Rightarrow> Inl e
              | Inr profit_volume \<Rightarrow>
                  if profit_volume < size_tick m then Inr None
                  else if \<not> symbol_parses m then Inl ValueError
                  else Inr (Some \<lparr>req_direction = (if m_mode m = 1 then SHORT else LONG),
                                  req_offset = CLOSE, req_type = LIMIT,
                                  req_price = profit_price,
                                  req_volume = profit_volume\<rparr>)))"

text \<open>
  \<open>MartinManager._calculate_first_position_order\<close>, without a trend signal (the only
  caller passes \<open>None\<close>).
\<close>

definition calculate_first_position_order ::
  "MartinManager \<Rightarrow> real \<Rightarrow> py_error + OrderRequest option" where
  "calculate_first_position_order m current_price =
     (if execution_mode (state m) = POSITION_ONLY then Inr None
      else
        case py_div (m_first_margin m * m_lever m) current_price of
          Inl e \<Rightarrow> Inl e
        | Inr vol0 \<Rightarrow>
            (case round_to_size_tick (size_tick m) vol0 of
               Inl e \<Rightarrow> Inl e
             | Inr vol \<Rightarrow>
                 if \<not> symbol_parses m then Inl ValueError
                 else Inr (Some \<lparr>req_direction = (if m_mode m = 1 then LONG else SHORT),
                                 req_offset = OPEN, req_type = LIMIT,
                                 req_price = current_price, req_volume = vol\<rparr>)))"

text \<open>\<open>MartinManager._calculate_add_position_order\<close>, without a trend signal.\<close>

definition calculate_add_position_order ::
  "MartinManager \<Rightarrow> real \<Rightarrow> py_error + OrderRequest option" where
  "calculate_add_position_order m current_price =
     (if add_count (state m) \<ge> m_adding_number m
         \<or> total_margin_used (state m) \<ge> m_max_total_margin m then Inr None
      else if avg_price (state m) \<le> 0 then Inr None
      else
        let price_deviation =
              (if m_mode m = 1
               then (avg_price (state m) - current_price) / avg_price (state m)
               else (current_price - avg_price (state m)) / avg_price (state m))
        in if price_deviation < m_opp_ratio m then Inr None
           else
             (case py_pow (m_amount_multiplier m) (add_count (state m)) of
                Inl e \<Rightarrow> Inl e
              | Inr pw \<Rightarrow>
                  (let add_margin = m_first_margin_add m * pw
                   in if total_margin_used (state m) + add_margin > m_max_total_margin m
                      then Inr None
                      else
                        case py_div (add_margin * m_lever m) current_price of
                          Inl e \<Rightarrow> Inl e
                        | Inr vol0 \<Rightarrow>
                            (case round_to_size_tick (size_tick m) vol0 of
                               Inl e \<Rightarrow> Inl e
                             | Inr vol \<Rightarrow>
                                 if \<not> symbol_parses m then Inl ValueError
                                 else Inr (Some \<lparr>req_direction =
                                                   (if m_mode m = 1 then LONG else SHORT),
                                                 req_offset = OPEN, req_type = LIMIT,
                                                 req_price = current_price,
                                                 req_volume = vol\<rparr>)))))"

text \<open>\<open>MartinManager._create_emergency_exit_order\<close>.\<close>

definition create_emergency_exit_order ::
  "MartinManager \<Rightarrow> real \<Rightarrow> py_error + OrderRequest option" where
  "create_emergency_exit_order m current_price =
     (if position_size (state m) \<le> size_tick m then Inr None
      else if \<not> symbol_parses m then Inl ValueError
      else Inr (Some \<lparr>req_direction = (if m_mode m = 1 then SHORT else LONG),
                      req_offset = CLOSE, req_type = TAKER,
                      req_price = current_price,
                      req_volume = position_size (state m)\<rparr>))"

text \<open>\<open>MartinManager._calculate_position_management_order\<close>.\<close>

definition calculate_position_management_order ::
  "MartinManager \<Rightarrow> real \<Rightarrow> py_error + OrderRequest option" where
  "calculate_position_management_order m current_price =
     (case calculate_profit_order m current_price of
        Inl e \<Rightarrow> Inl e
      | Inr (Some req) \<Rightarrow> Inr (Some req)
      | Inr None \<Rightarrow>
          if execution_mode (state m) \<noteq> POSITION_ONLY
          then calculate_add_position_order m current_price
          else Inr None)"

text \<open>\<open>MartinManager.calculate_next_action\<close>.\<close>

definition calculate_next_action ::
  "MartinManager \<Rightarrow> real \<Rightarrow> py_error + OrderRequest option" where
  "calculate_next_action m current_price =
     (if execution_mode (state m) = SUSPENDED then Inr None
      else if execution_mode (state m) = EMERGENCY_EXIT
      then create_emergency_exit_order m current_price
      else if \<bar>position_size (state m)\<bar> \<le> size_tick m
      then calculate_first_position_order m current_price
      else calculate_position_management_order m current_price)"

section \<open>Recovery from exchange data (MartinStateRecovery)\<close>

record exchange_position =
  volume :: real
  xp_avg_price :: real
  pnl :: real
  source :: string

record order_analysis =
  oa_add_count :: int
  buy_orders :: nat
  sell_orders :: nat
  total_volume :: real

text \<open>The fields of an order of the engine that the recovery reads.\<close>

record OrderData =
  od_vt_symbol :: string
  od_reference :: string
  od_vt_orderid :: string

text \<open>
  \<open>MartinStateRecovery._get_active_martin_orders\<close>, from the list of all active
  orders the engine holds: the ids of the orders of the symbol whose reference contains
  \<open>M\<close> followed by the mode, and \<open>MARTIN\<close> in any case of the letters.
\<close>

definition get_active_martin_orders :: "string \<Rightarrow> int \<Rightarrow> OrderData list \<Rightarrow> string list" where
  "get_active_martin_orders smb md all_active =
     map od_vt_orderid
       (filter (\<lambda>order. od_vt_symbol order = smb
                         \<and> str_contains (CHR ''M'' # str_int md) (od_reference order)
                         \<and> str_contains ''MARTIN'' (py_upper (od_reference order)))
          all_active)"

record validation =
  has_position :: bool
  has_orders :: bool
  has_order_history :: bool
  position_order_consistent :: bool
  direction_consistent :: bool
  overall_valid :: bool

text \<open>\<open>MartinStateRecovery._validate_recovery_data\<close>.\<close>

definition validate_recovery_data ::
  "int \<Rightarrow> exchange_position option \<Rightarrow> order_analysis \<Rightarrow> string list \<Rightarrow> validation" where
  "validate_recovery_data md xp oa act =
     (let has_pos = (case xp of None \<Rightarrow> False | Some p \<Rightarrow> \<bar>volume p\<bar> > 1 / 10 ^ 8);
          has_ord = (length act > 0);
          has_hist = (total_volume oa > 0);
          consistent =
            (case xp of
               None \<Rightarrow> True
             | Some p \<Rightarrow>
                 if has_pos \<and> has_hist then
                   (let pos_volume = \<bar>volume p\<bar>; order_volume = total_volume oa
                    in \<not> (\<bar>pos_volume - order_volume\<bar> / max pos_volume order_volume > 1 / 10))
                 else True);
          dir_ok =
            (case xp of
               None \<Rightarrow> True
             | Some p \<Rightarrow>
                 if has_pos then
                   (let pos_direction = (if volume p > 0 then 1 else 2)
                    in \<not> (pos_direction \<noteq> md))
                 else True)
      in \<lparr>has_position = has_pos, has_orders = has_ord, has_order_history = has_hist,
          position_order_consistent = consistent, direction_consistent = dir_ok,
          overall_valid = ((has_pos \<or> has_ord) \<and> dir_ok)\<rparr>)"

text \<open>
  \<open>MartinStateRecovery._determine_recovery_action\<close>. The branches are kept in the
  order of the source, the unreachable last \<open>else\<close> included.
\<close>

definition determine_recovery_action ::
  "exchange_position option \<Rightarrow> validation \<Rightarrow> string \<times> real" where
  "determine_recovery_action xp v =
     (let c0 = 5 / 10;
          c1 = (case xp of
                  None \<Rightarrow> c0
                | Some p \<Rightarrow> if source p = ''exchange_query'' then c0 + 3 / 10 else c0);
          c2 = (if position_order_consistent v then c1 + 2 / 10 else c1);
          confidence = min 1 c2
      in if \<not> direction_consistent v then (''INVALID_DIRECTION'', 1 / 10)
         else if has_position v \<and> \<not> has_orders v then (''RESET_SELL'', confidence)
         else if has_position v \<and> has_orders v then (''CONTINUE'', confidence)
         else if \<not> has_position v \<and> has_orders v then (''CANCEL_ORDERS'', confidence * (8 / 10))
         else if \<not> has_position v \<and> \<not> has_orders v then (''NEW_CYCLE'', confidence)
         else (''UNKNOWN'', 1 / 10))"

record MartinRecoveryState =
  rs_symbol :: string
  rs_mode :: int
  total_position :: real
  avg_cost_price :: real
  rs_add_count :: int
  rs_active_orders :: "string list"
  recovery_action :: string
  confidence :: real
  exchange_verified :: bool

text \<open>
  \<open>MartinStateRecovery._recover_single_strategy\<close>, from the three exchange readings
  on: \<open>None\<close> when there is neither a position nor an active order.
\<close>

definition recover_single_strategy ::
  "string \<Rightarrow> int \<Rightarrow> exchange_position option \<Rightarrow> order_analysis \<Rightarrow> string list
     \<Rightarrow> MartinRecoveryState option" where
  "recover_single_strategy smb md xp oa act =
     (let v = validate_recovery_data md xp oa act
      in if \<not> has_position v \<and> \<not> has_orders v then None
         else
           let (action, conf) = determine_recovery_action xp v
           in Some \<lparr>rs_symbol = smb, rs_mode = md,
                    total_position = (case xp of None \<Rightarrow> 0 | Some p \<Rightarrow> volume p),
                    avg_cost_price = (case xp of None \<Rightarrow> 0 | Some p \<Rightarrow> xp_avg_price p),
                    rs_add_count = oa_add_count oa, rs_active_orders = act,
                    recovery_action = action, confidence = conf,
                    exchange_verified = (xp \<noteq> None)\<rparr>)"

text \<open>
  The recovery pass for one strategy, from what the engine holds: the position, the
  analysis of the order history, and all its active orders.
\<close>

definition recovery_pass ::
  "string \<Rightarrow> int \<Rightarrow> exchange_position option \<Rightarrow> order_analysis \<Rightarrow> OrderData list
     \<Rightarrow> MartinRecoveryState option" where
  "recovery_pass smb md xp oa all_active =
     recover_single_strategy smb md xp oa (get_active_martin_orders smb md all_active)"

subsection \<open>Applying a recovery result (AccountExecutor)\<close>

text \<open>
  What the main engine answers during recovery: the last tick price of the symbol (if
  any), whether the contract is known, the order id \<open>send_order\<close> returns (empty when
  it fails), and which order ids are still active. The calls that reach the exchange are
  collected in a trace.
\<close>

record engine =
  last_price :: "real option"
  contract_found :: bool
  new_orderid :: string
  order_active :: "string \<Rightarrow> bool"

datatype engine_call = SendOrder OrderRequest | CancelOrder string

text \<open>\<open>AccountExecutor._send_order\<close>: every exception is caught and gives \<open>None\<close>.\<close>

definition send_order :: "engine \<Rightarrow> OrderRequest \<Rightarrow> string option \<times> engine_call list" where
  "send_order eng req =
     (if \<not> contract_found eng then (None, [])
      else if new_orderid eng \<noteq> [] then (Some (new_orderid eng), [SendOrder req])
      else (None, [SendOrder req]))"

text \<open>
  \<open>AccountExecutor._place_recovery_sell_order\<close>; a tick price of zero is falsy, and
  an exception anywhere leaves the manager as it is.
\<close>

definition place_recovery_sell_order ::
  "engine \<Rightarrow> MartinManager \<Rightarrow> MartinRecoveryState \<Rightarrow> MartinManager \<times> engine_call list" where
  "place_recovery_sell_order eng m rs =
     (if total_position rs \<le> 0 then (m, [])
      else
        case last_price eng of
          None \<Rightarrow> (m, [])
        | Some px \<Rightarrow>
            if px = 0 then (m, [])
            else
              (case calculate_profit_order m px of
                 Inl e \<Rightarrow> (m, [])
               | Inr None \<Rightarrow> (m, [])
               | Inr (Some req) \<Rightarrow>
                   (case send_order eng req of
                      (Some oid, calls) \<Rightarrow>
                        (m\<lparr>state := (state m)\<lparr>active_orders := active_orders (state m) @ [oid]\<rparr>\<rparr>,
                         calls)
                    | (None, calls) \<Rightarrow> (m, calls))))"

text \<open>\<open>AccountExecutor._cancel_recovery_orders\<close>.\<close>

definition cancel_recovery_orders :: "engine \<Rightarrow> MartinRecoveryState \<Rightarrow> engine_call list" where
  "cancel_recovery_orders eng rs =
     map CancelOrder (filter (order_active eng) (rs_active_orders rs))"

text \<open>
  The body of the loop of \<open>AccountExecutor._apply_recovery_results\<close> for one strategy
  key whose manager exists.
\<close>

definition apply_recovery_result ::
  "engine \<Rightarrow> MartinManager \<Rightarrow> MartinRecoveryState \<Rightarrow> MartinManager \<times> engine_call list" where
  "apply_recovery_result eng m rs =
     (let m1 = m\<lparr>state := (state m)\<lparr>avg_price := avg_cost_price rs,
                                      position_size := total_position rs,
                                      add_count := rs_add_count rs,
                                      active_orders := rs_active_orders rs\<rparr>\<rparr>
      in if recovery_action rs = ''RESET_SELL'' then
           place_recovery_sell_order eng
             (m1\<lparr>state := (state m1)\<lparr>execution_mode := NORMAL\<rparr>\<rparr>) rs
         else if recovery_action rs = ''CONTINUE'' then
           (m1\<lparr>state := (state m1)\<lparr>execution_mode := NORMAL\<rparr>\<rparr>, [])
         else if recovery_action rs = ''CANCEL_ORDERS'' then
           (m1\<lparr>state := (state m1)\<lparr>execution_mode := POSITION_ONLY\<rparr>\<rparr>,
            cancel_recovery_orders eng rs)
         else if recovery_action rs = ''NEW_CYCLE'' then
           (reset_martin_state (m1\<lparr>state := (state m1)\<lparr>execution_mode := NORMAL\<rparr>\<rparr>), [])
         else (m1, []))"

text \<open>The loop itself, over the items of the result dictionary.\<close>

fun apply_recovery_results ::
  "engine \<Rightarrow> (string \<rightharpoonup> MartinManager) \<Rightarrow> (string \<times> MartinRecoveryState) list
     \<Rightarrow> (string \<rightharpoonup> MartinManager) \<times> engine_call list" where
  "apply_recovery_results eng ms [] = (ms, [])"
| "apply_recovery_results eng ms ((k, rs) # rest) =
     (case ms k of
        None \<Rightarrow> apply_recovery_results eng ms rest
      | Some m \<Rightarrow>
          (let (m', calls) = apply_recovery_result eng m rs;
               (ms', calls') = apply_recovery_results eng (ms(k \<mapsto> m')) rest
           in (ms', calls @ calls')))"

text \<open>
  \<open>AccountExecutor._check_generate_orders\<close> for a strategy whose manager exists: it
  runs after every order and trade event of the symbol. An exception is caught and
  nothing is sent.
\<close>

definition check_generate_orders :: "engine \<Rightarrow> MartinManager \<Rightarrow> engine_call list" where
  "check_generate_orders eng m =
     (case last_price eng of
        None \<Rightarrow> []
      | Some px \<Rightarrow>
          if px = 0 then []
          else
            (case calculate_next_action m px of
               Inl e \<Rightarrow> []
             | Inr None \<Rightarrow> []
             | Inr (Some req) \<Rightarrow> snd (send_order eng req)))"

subsection \<open>Trade fills (MartinManager.on\_trade\_update)\<close>

record TradeData =
  vt_symbol :: string
  direction :: Direction
  price :: real
  trade_volume :: real

definition on_trade_update :: "MartinManager \<Rightarrow> TradeData \<Rightarrow> py_error + MartinManager" where
  "on_trade_update m trade =
     (if vt_symbol trade \<noteq> m_symbol m then Inr m
      else if direction trade = LONG then
        (if position_size (state m) > 0 then
           (let total_cost = avg_price (state m) * position_size (state m)
                               + price trade * trade_volume trade;
                new_size = position_size (state m) + trade_volume trade
            in case py_div total_cost new_size of
                 Inl e \<Rightarrow> Inl e
               | Inr a \<Rightarrow> Inr (m\<lparr>state := (state m)\<lparr>position_size := new_size, avg_price := a\<rparr>\<rparr>))
         else Inr (m\<lparr>state := (state m)\<lparr>avg_price := price trade,
                                         position_size := trade_volume trade\<rparr>\<rparr>))
      else if direction trade = SHORT then
        (let m1 = m\<lparr>state := (state m)\<lparr>position_size :=
                                            position_size (state m) - trade_volume trade\<rparr>\<rparr>
         in if position_size (state m1) \<le> size_tick m then Inr (reset_martin_state m1)
            else Inr m1)
      else Inr m)"

section \<open>Persistence (PersistenceManager)\<close>





section \<open>The ladder table (martingale\_strategy, DAC1.8\_test.py)\<close>

record strategy_params =
  lever :: real
  first_margin :: real
  first_margin_add :: real
  adding_number :: nat
  amount_multiplie :: real
  price_multiple :: real
  sp_profit_target :: real
  opp_ratio :: real
  sp_mode :: int

text \<open>One row of the table; \<open>olderid\<close> is the level number the source stores as a string.\<close>

record ladder_order =
  older_price :: real
  older_margin :: real
  average_cost :: real
  older_pos :: real
  total_pos :: real
  burst_price :: real
  profit_price :: real
  olderid :: nat

text \<open>
  The number of decimal places \<open>martingale_strategy\<close> reads off \<open>minSz_str =
  str(minSz)\<close>: the length of \<open>minSz_str.split('.')[1]\<close> when the string has a point,
  set to 0 when that part is the integer 0; 0 when there is no point. \<open>int\<close> of the
  part raises \<open>ValueError\<close> unless it is a string of digits, as it is for the decimal
  strings of a number (\<open>0.01\<close>, \<open>1.0\<close>), but not for one with an exponent
  (\<open>1.5e-05\<close>).
\<close>

definition after_point :: "string \<Rightarrow> string" where
  "after_point s =
     takeWhile (\<lambda>c. c \<noteq> CHR ''.'') (tl (dropWhile (\<lambda>c. c \<noteq> CHR ''.'') s))"

definition decimal_places_of :: "string \<Rightarrow> py_error + nat" where
  "decimal_places_of minSz_str =
     (if CHR ''.'' \<in> set minSz_str then
        (let part = after_point minSz_str
         in if part = [] \<or> \<not> list_all (\<lambda>c. c \<in> set ''0123456789'') part
            then Inl ValueError
            else if list_all (\<lambda>c. c = CHR ''0'') part then Inr 0
            else Inr (length part))
      else Inr 0)"

text \<open>
  \<open>int(x * factor) / factor\<close> with \<open>factor = 10 ** decimal_places\<close>: the float
  product is cut towards zero, and the quotient is a float again.
\<close>

definition trunc_places :: "(real \<Rightarrow> real) \<Rightarrow> nat \<Rightarrow> real \<Rightarrow> real" where
  "trunc_places fl dp x = fl (of_int (py_int (fl (x * 10 ^ dp))) / 10 ^ dp)"

text \<open>
  The size \<open>margin * lever / (price * ctVal)\<close> as the floats give it: two products and
  a quotient, each rounded.
\<close>

definition raw_size :: "(real \<Rightarrow> real) \<Rightarrow> real \<Rightarrow> real \<Rightarrow> real \<Rightarrow> real \<Rightarrow> py_error + real" where
  "raw_size fl margin lv px ctVal =
     (case py_div (fl (margin * lv)) (fl (px * ctVal)) of
        Inl e \<Rightarrow> Inl e
      | Inr q \<Rightarrow> Inr (fl q))"

text \<open>
  \<open>total_margin\<close>: the first margin plus the margins of all the add levels, summed by
  the loop \<open>for i in range(0, adding_number)\<close>.
\<close>

fun sum_margins :: "strategy_params \<Rightarrow> nat \<Rightarrow> real" where
  "sum_margins P 0 = first_margin P"
| "sum_margins P (Suc i) = sum_margins P i + first_margin_add P * amount_multiplie P ^ i"

text \<open>The estimated liquidation price, as both places of the source compute it.\<close>

definition burst_of ::
  "int \<Rightarrow> real \<Rightarrow> real \<Rightarrow> real \<Rightarrow> real \<Rightarrow> real \<Rightarrow> py_error + real" where
  "burst_of md total_margin tp avg ref_price ctVal =
     (if md = 1 then
        (if total_margin \<ge> tp * avg * ctVal then Inr 0
         else case py_div total_margin (tp * avg * ctVal) of
                Inl e \<Rightarrow> Inl e
              | Inr q \<Rightarrow> Inr (avg * (1 - q)))
      else
        (if total_margin \<ge> tp * ref_price * ctVal then Inr 1000000
         else case py_div total_margin (tp * avg * ctVal) of
                Inl e \<Rightarrow> Inl e
              | Inr q \<Rightarrow> Inr ((1 + q) * avg)))"

text \<open>
  The body of the loop over the add levels, for the loop index \<open>i\<close> (level \<open>k = i + 1\<close>)
  and the row \<open>prev\<close> built last, which holds \<open>before_price\<close>, \<open>average_cost\<close> and
  \<open>total_pos\<close>. \<open>opp\<close> is \<open>opp_ratio\<close> for a long strategy and \<open>-opp_ratio\<close> for
  a short one. Both loops of the source are the same up to the liquidation and profit
  prices.
\<close>

definition ladder_step ::
  "(real \<Rightarrow> real) \<Rightarrow> strategy_params \<Rightarrow> real \<Rightarrow> real \<Rightarrow> nat \<Rightarrow> real \<Rightarrow> real \<Rightarrow> nat
     \<Rightarrow> ladder_order \<Rightarrow> py_error + ladder_order" where
  "ladder_step fl P ctVal minSz dp total_margin opp i prev =
     (let k = i + 1;
          before_price = older_price prev;
          o_price = before_price * (1 - opp * price_multiple P ^ i);
          o_margin = first_margin_add P * amount_multiplie P ^ i
      in case raw_size fl o_margin (lever P) o_price ctVal of
           Inl e \<Rightarrow> Inl e
         | Inr raw_pos \<Rightarrow>
             (let o_pos = (if k \<le> 25 then trunc_places fl dp raw_pos
                           else max minSz (py_round_nd minSz dp))
              in case py_div (average_cost prev * total_pos prev + o_pos * o_price)
                             (total_pos prev + o_pos) of
                   Inl e \<Rightarrow> Inl e
                 | Inr avg \<Rightarrow>
                     (let tp = total_pos prev + o_pos
                      in case burst_of (sp_mode P) total_margin tp avg avg ctVal of
                           Inl e \<Rightarrow> Inl e
                         | Inr burst \<Rightarrow>
                             Inr \<lparr>older_price = o_price, older_margin = o_margin,
                                  average_cost = avg, older_pos = o_pos, total_pos = tp,
                                  burst_price = burst,
                                  profit_price =
                                    (if sp_mode P = 1 then avg * (1 + sp_profit_target P)
                                     else avg * (1 - sp_profit_target P)),
                                  olderid = k\<rparr>)))"

text \<open>The loop: \<open>n\<close> more levels from index \<open>i\<close> on, after the row \<open>prev\<close>.\<close>

fun ladder_loop ::
  "(real \<Rightarrow> real) \<Rightarrow> strategy_params \<Rightarrow> real \<Rightarrow> real \<Rightarrow> nat \<Rightarrow> real \<Rightarrow> real \<Rightarrow> nat \<Rightarrow> nat
     \<Rightarrow> ladder_order \<Rightarrow> py_error + ladder_order list" where
  "ladder_loop fl P ctVal minSz dp tm opp 0 i prev = Inr []"
| "ladder_loop fl P ctVal minSz dp tm opp (Suc n) i prev =
     (case ladder_step fl P ctVal minSz dp tm opp i prev of
        Inl e \<Rightarrow> Inl e
      | Inr row \<Rightarrow>
          (case ladder_loop fl P ctVal minSz dp tm opp n (Suc i) row of
             Inl e \<Rightarrow> Inl e
           | Inr rows \<Rightarrow> Inr (row # rows)))"

text \<open>
  \<open>martingale_strategy(parameter, initial_price, ctVal, minSz)\<close>, with the string
  \<open>str(minSz)\<close> as a further parameter. A mode other than 1 and 2 leaves
  \<open>burst_price\<close> unbound.
\<close>

definition martingale_strategy ::
  "(real \<Rightarrow> real) \<Rightarrow> strategy_params \<Rightarrow> real \<Rightarrow> real \<Rightarrow> real \<Rightarrow> string
     \<Rightarrow> py_error + ladder_order list \<times> real" where
  "martingale_strategy fl P initial_price ctVal minSz minSz_str =
     (case decimal_places_of minSz_str of
        Inl e \<Rightarrow> Inl e
      | Inr dp \<Rightarrow>
          (case raw_size fl (first_margin P) (lever P) initial_price ctVal of
             Inl e \<Rightarrow> Inl e
           | Inr raw \<Rightarrow>
               (let tp = trunc_places fl dp raw;
                    avg = initial_price;
                    total_margin = sum_margins P (adding_number P)
                in if sp_mode P \<noteq> 1 \<and> sp_mode P \<noteq> 2 then Inl NameError
                   else
                     case burst_of (sp_mode P) total_margin tp avg initial_price ctVal of
                       Inl e \<Rightarrow> Inl e
                     | Inr burst \<Rightarrow>
                         (let opp = (if sp_mode P = 1 then opp_ratio P else - opp_ratio P);
                              row0 = \<lparr>older_price = initial_price,
                                      older_margin = first_margin P,
                                      average_cost = avg, older_pos = tp, total_pos = tp,
                                      burst_price = burst,
                                      profit_price =
                                        (if sp_mode P = 1 then avg * (1 + sp_profit_target P)
                                         else avg * (1 - sp_profit_target P)),
                                      olderid = 1\<rparr>
                          in case ladder_loop fl P ctVal minSz dp total_margin opp
                                    (adding_number P) 0 row0 of
                               Inl e \<Rightarrow> Inl e
                             | Inr rows \<Rightarrow> Inr (row0 # rows, total_margin * (21 / 10))))))"

section \<open>Order queries with retry (get\_order\_with\_lock, DAC1.8\_test.py)\<close>


datatype 'a outcome = Returns 'a | Raises py_error





section \<open>The strategy worker (MartingaleStrategy, DAC1.8\_test.py)\<close>

record MartingaleStrategy =
  ms_params :: strategy_params
  stop_flag :: bool
  sellpx :: "real option"
  maxsz :: real
  avgPx :: real
  option_hedge :: bool

text \<open>
  What the worker sends out: exchange calls and messages to the option hedge and to the
  main thread. A limit order always carries the fixed client id of the protective order;
  its event records price, size and the \<open>sCode\<close> answered (\<open>None\<close>: the call raised).
\<close>

datatype api_event =
    GetOrder
  | CancelSellOrder
  | GetOrderList
  | PlaceLimit real real "string option"
  | PlaceMarket real
  | OpenOptionHedge int real
  | ClosePutOption int
  | UpdateOption bool

text \<open>
  What the exchange answers during one self-heal check: the outcome of the query of the
  protective order through \<open>get_order_with_lock\<close> (its state, \<open>None\<close>, or the
  exception), whether the cancel calls raise, the number of pending add orders
  \<open>get_order_list\<close> reports (\<open>None\<close>: it raises), and the \<open>sCode\<close> of the first and
  the second limit placement (\<open>None\<close>: it raises), and whether a market order
  raises.
\<close>

record exchange =
  older :: "string option outcome"
  cancel_raises :: bool
  open_adds :: "nat option"
  limit1 :: "string option"
  dup_cancel_raises :: bool
  limit2 :: "string option"
  market_raises :: bool

text \<open>\<open>MartingaleStrategy._calc_profit_and_maybe_open_option\<close>.\<close>

definition calc_profit_and_maybe_open_option ::
  "MartingaleStrategy \<Rightarrow> exchange \<Rightarrow> (real \<times> MartingaleStrategy \<times> api_event list) option" where
  "calc_profit_and_maybe_open_option st ex =
     (case open_adds ex of
        None \<Rightarrow> None
      | Some cnt \<Rightarrow>
          (let add_cnt = int (adding_number (ms_params st)) - int cnt;
               profit = 1 + sp_profit_target (ms_params st)
           in if add_cnt \<ge> 5 \<and> add_cnt < 8 then Some (1002 / 1000, st, [GetOrderList])
              else if add_cnt \<ge> 8 \<and> add_cnt < 10 then
                (if add_cnt = 8 then
                   Some (1005 / 1000, st\<lparr>option_hedge := True\<rparr>,
                         [GetOrderList, OpenOptionHedge add_cnt 10, UpdateOption True])
                 else Some (1005 / 1000, st, [GetOrderList]))
              else if add_cnt = 10 then
                Some (102 / 100, st, [GetOrderList, ClosePutOption add_cnt])
              else Some (profit, st, [GetOrderList])))"

text \<open>
  The market order placed inside the \<open>try\<close> block of
  \<open>_place_limit_then_fallback_market\<close>: when it raises, the handler of the block
  places it once more.
\<close>

definition market_in_try :: "exchange \<Rightarrow> real \<Rightarrow> api_event list" where
  "market_in_try ex amount =
     (if market_raises ex then [PlaceMarket amount, PlaceMarket amount]
      else [PlaceMarket amount])"

text \<open>
  \<open>MartingaleStrategy._place_limit_then_fallback_market\<close>: a limit order; on a
  duplicate client id (\<open>51015\<close>) a cancel and one more limit order; on any other
  rejection or exception a market order of the same size.
\<close>

definition place_limit_then_fallback_market ::
  "exchange \<Rightarrow> real \<Rightarrow> real \<Rightarrow> api_event list" where
  "place_limit_then_fallback_market ex amount px =
     (case limit1 ex of
        None \<Rightarrow> [PlaceLimit px amount None, PlaceMarket amount]
      | Some code \<Rightarrow>
          if code = ''0'' then [PlaceLimit px amount (Some code)]
          else if code = ''51015'' then
            (if dup_cancel_raises ex then
               [PlaceLimit px amount (Some code), CancelSellOrder, PlaceMarket amount]
             else
               (case limit2 ex of
                  None \<Rightarrow>
                    [PlaceLimit px amount (Some code), CancelSellOrder,
                     PlaceLimit px amount None, PlaceMarket amount]
                | Some code2 \<Rightarrow>
                    if code2 = ''0'' then
                      [PlaceLimit px amount (Some code), CancelSellOrder,
                       PlaceLimit px amount (Some code2)]
                    else
                      [PlaceLimit px amount (Some code), CancelSellOrder,
                       PlaceLimit px amount (Some code2)] @ market_in_try ex amount))
          else PlaceLimit px amount (Some code) # market_in_try ex amount)"

text \<open>\<open>MartingaleStrategy.sell_order\<close>; an exception is logged and ends the call.\<close>

definition sell_order ::
  "MartingaleStrategy \<Rightarrow> exchange \<Rightarrow> real \<Rightarrow> real \<Rightarrow> MartingaleStrategy \<times> api_event list" where
  "sell_order st ex avg amount =
     (case calc_profit_and_maybe_open_option st ex of
        None \<Rightarrow> (st, [GetOrderList])
      | Some (profit, st1, evs) \<Rightarrow>
          (let limit_px = (if sp_mode (ms_params st1) = 1 then avg * profit
                           else avg * (1 - profit))
           in (st1\<lparr>sellpx := Some limit_px\<rparr>,
               evs @ place_limit_then_fallback_market ex amount limit_px)))"

text \<open>
  \<open>MartingaleStrategy.ensure_sell_order(pos, minSz, d_minSz, avgPx, tickSz)\<close>, the
  self-heal check. An exception of the order query leaves the method.
\<close>

definition ensure_sell_order ::
  "MartingaleStrategy \<Rightarrow> exchange \<Rightarrow> real \<Rightarrow> real \<Rightarrow> nat \<Rightarrow> real \<Rightarrow> real
     \<Rightarrow> py_error + MartingaleStrategy \<times> api_event list" where
  "ensure_sell_order st ex pos minSz d_minSz avg tickSz =
     (if stop_flag st then Inr (st, [])
      else
        case older ex of
          Raises e \<Rightarrow> Inl e
        | Returns r \<Rightarrow>
            (let live = (case r of
                           None \<Rightarrow> False
                         | Some s \<Rightarrow> s = ''live'' \<or> s = ''partially_filled'')
             in if live then Inr (st, [GetOrder])
                else if pos \<le> minSz then Inr (st, [GetOrder, CancelSellOrder])
                else
                  (let amount = py_round_nd (min (pos - minSz) (maxsz st)) d_minSz
                   in if amount < minSz then Inr (st, [GetOrder, CancelSellOrder])
                      else
                        (case sell_order st ex avg amount of
                           (st', evs) \<Rightarrow> Inr (st', [GetOrder, CancelSellOrder] @ evs)))))"

text \<open>
  The number of protective orders the exchange accepted among the events: limit
  placements answered with \<open>sCode\<close> 0.
\<close>

fun accepted_orders :: "api_event list \<Rightarrow> nat" where
  "accepted_orders [] = 0"
| "accepted_orders (PlaceLimit px sz (Some code) # evs) =
     (if code = ''0'' then 1 else 0) + accepted_orders evs"
| "accepted_orders (ev # evs) = accepted_orders evs"

text \<open>The order placements among the events, with their sizes.\<close>

fun placed_sizes :: "api_event list \<Rightarrow> real list" where
  "placed_sizes [] = []"
| "placed_sizes (PlaceLimit px sz code # evs) = sz # placed_sizes evs"
| "placed_sizes (PlaceMarket sz # evs) = sz # placed_sizes evs"
| "placed_sizes (ev # evs) = placed_sizes evs"


section \<open>The order queue of the refactored manager (account\_executor\_refactored.py)\<close>

text \<open>
  The fields of \<open>SimpleMartinManager\<close> the queue computation reads; \<open>s_avg_price\<close>,
  \<open>s_position_size\<close> and \<open>s_add_count\<close> are the fields of its \<open>state\<close>.
\<close>

record SimpleMartinManager =
  s_mode :: int
  s_lever :: real
  s_first_margin :: real
  s_first_margin_add :: real
  s_amount_multiplier :: real
  s_price_multiple :: real
  s_opp_ratio :: real
  buy_orders_count :: nat
  contract_size :: real
  min_order_size :: real
  s_avg_price :: real
  s_position_size :: real
  s_add_count :: int

text \<open>One tuple of the queue: price, volume, sequence number, average price, position.\<close>

record queue_row =
  q_price :: real
  q_volume :: real
  q_sequence :: nat
  q_avg_price :: real
  q_position_size :: real

text \<open>\<open>SimpleMartinManager.calculate_first_order_params\<close>.\<close>

definition calculate_first_order_params ::
  "SimpleMartinManager \<Rightarrow> real \<Rightarrow> py_error + real \<times> SimpleMartinManager" where
  "calculate_first_order_params M current_price =
     (case py_div (s_first_margin M * s_lever M) (current_price * contract_size M) of
        Inl e \<Rightarrow> Inl e
      | Inr o_pos \<Rightarrow>
          (case round_to_size_tick (min_order_size M) o_pos of
             Inl e \<Rightarrow> Inl e
           | Inr vol \<Rightarrow>
               Inr (vol, M\<lparr>s_avg_price := current_price, s_position_size := vol\<rparr>)))"


text \<open>
  The body of the loops of \<open>calculate_buy_orders_queue\<close> for the index \<open>i\<close>, from
  \<open>before_price\<close> and the average price and position held in the state.
\<close>

definition queue_step ::
  "SimpleMartinManager \<Rightarrow> nat \<Rightarrow> real \<Rightarrow> real \<Rightarrow> real \<Rightarrow> py_error + queue_row" where
  "queue_step M i before_price avg sz =
     (let o_price = (if s_mode M = 1
                     then before_price * (1 - s_opp_ratio M * s_price_multiple M ^ i)
                     else before_price * (1 + s_opp_ratio M * s_price_multiple M ^ i));
          o_margin = s_first_margin_add M * s_amount_multiplier M ^ i
      in case py_div (o_margin * s_lever M) (o_price * contract_size M) of
           Inl e \<Rightarrow> Inl e
         | Inr o_pos \<Rightarrow>
             (case round_to_size_tick (min_order_size M) o_pos of
                Inl e \<Rightarrow> Inl e
              | Inr vol \<Rightarrow>
                  (case py_div (avg * sz + o_margin * s_lever M) (sz + vol) of
                     Inl e \<Rightarrow> Inl e
                   | Inr a \<Rightarrow>
                       Inr \<lparr>q_price = o_price, q_volume = vol, q_sequence = i + 1,
                            q_avg_price = a, q_position_size = sz + vol\<rparr>)))"

text \<open>
  The loop \<open>for i in range(0, buy_orders_count)\<close>; the second component is the average
  price and position left in the state, also when an exception ends the loop.
\<close>

fun queue_loop ::
  "SimpleMartinManager \<Rightarrow> nat \<Rightarrow> nat \<Rightarrow> real \<Rightarrow> real \<Rightarrow> real
     \<Rightarrow> (py_error + queue_row list) \<times> real \<times> real" where
  "queue_loop M 0 i before_price avg sz = (Inr [], avg, sz)"
| "queue_loop M (Suc n) i before_price avg sz =
     (case queue_step M i before_price avg sz of
        Inl e \<Rightarrow> (Inl e, avg, sz)
      | Inr row \<Rightarrow>
          (case queue_loop M n (Suc i) (q_price row) (q_avg_price row) (q_position_size row) of
             (Inl e, st) \<Rightarrow> (Inl e, st)
           | (Inr rows, st) \<Rightarrow> (Inr (row # rows), st)))"

text \<open>
  \<open>SimpleMartinManager.calculate_buy_orders_queue(base_price, add_count,
  max_add_sequence)\<close>. The branch for a single further order reads the loop variable
  \<open>i\<close>, which is unbound there, after it has updated the state. \<open>Inr None\<close> is the
  return value \<open>None\<close>.
\<close>

definition calculate_buy_orders_queue ::
  "SimpleMartinManager \<Rightarrow> real \<Rightarrow> int \<Rightarrow> nat
     \<Rightarrow> (py_error + queue_row list option) \<times> SimpleMartinManager" where
  "calculate_buy_orders_queue M base_price add_cnt max_add_sequence =
     (if add_cnt = 0 then
        (if s_mode M = 1 \<or> s_mode M = 2 then
           (case queue_loop M (buy_orders_count M) 0 base_price
                   (s_avg_price M) (s_position_size M) of
              (Inl e, a, sz) \<Rightarrow> (Inl e, M\<lparr>s_avg_price := a, s_position_size := sz\<rparr>)
            | (Inr rows, a, sz) \<Rightarrow>
                (Inr (Some rows), M\<lparr>s_avg_price := a, s_position_size := sz\<rparr>))
         else (Inr (Some []), M))
      else if max_add_sequence < buy_orders_count M then
        (if s_mode M = 1 \<or> s_mode M = 2 then
           (case queue_step M max_add_sequence base_price
                   (s_avg_price M) (s_position_size M) of
              Inl e \<Rightarrow> (Inl e, M)
            | Inr row \<Rightarrow>
                (Inl NameError,
                 M\<lparr>s_avg_price := q_avg_price row, s_position_size := q_position_size row\<rparr>))
         else (Inr (Some []), M))
      else (Inr None, M))"

section \<open>Example inputs\<close>

definition falling_engine :: engine where
  "falling_engine = \<lparr>last_price = Some 97, contract_found = True, new_orderid = ''id8'',
                     order_active = (\<lambda>_. True)\<rparr>"

definition default_manager :: MartinManager where
  "default_manager =
     \<lparr>m_symbol = ''BTC'', m_mode = 1, m_lever = 10, m_first_margin = 50,
      m_first_margin_add = 50, m_adding_number = 20, m_amount_multiplier = 12 / 10,
      profit_target = 1 / 100, m_opp_ratio = 25 / 1000, m_max_total_margin = 1000,
      size_tick = 1 / 1000, symbol_parses = True,
      state = \<lparr>symbol = ''BTC'', mode = 1, avg_price = 0, position_size = 0, add_count = 0,
                total_margin_used = 0, active_orders = [], execution_mode = NORMAL\<rparr>\<rparr>"

definition short_position :: exchange_position where
  "short_position = \<lparr>volume = - 5, xp_avg_price = 100, pnl = 0, source = ''exchange_cache''\<rparr>"

definition empty_history :: order_analysis where
  "empty_history = \<lparr>oa_add_count = 0, buy_orders = 0, sell_orders = 0, total_volume = 0\<rparr>"

definition long_position :: exchange_position where
  "long_position = \<lparr>volume = 5, xp_avg_price = 100, pnl = 0, source = ''exchange_cache''\<rparr>"

definition short_history :: order_analysis where
  "short_history = \<lparr>oa_add_count = 0, buy_orders = 1, sell_orders = 0, total_volume = 4\<rparr>"

definition full_history :: order_analysis where
  "full_history = \<lparr>oa_add_count = 1, buy_orders = 2, sell_orders = 0, total_volume = 5\<rparr>"

definition add_order :: OrderData where
  "add_order = \<lparr>od_vt_symbol = ''BTC'', od_reference = ''MARTIN_ACCM1_BTC_ADD_1_0007'',
                 od_vt_orderid = ''o7''\<rparr>"

definition holding_manager :: MartinManager where
  "holding_manager =
     \<lparr>m_symbol = ''BTC'', m_mode = 1, m_lever = 10, m_first_margin = 50,
      m_first_margin_add = 50, m_adding_number = 20, m_amount_multiplier = 12 / 10,
      profit_target = 1 / 100, m_opp_ratio = 25 / 1000, m_max_total_margin = 1000,
      size_tick = 1 / 1000, symbol_parses = True,
      state = \<lparr>symbol = ''BTC'', mode = 1, avg_price = 100, position_size = 2, add_count = 3,
                total_margin_used = 40, active_orders = [''o1'', ''o2''],
                execution_mode = POSITION_ONLY\<rparr>\<rparr>"

definition closing_fill :: TradeData where
  "closing_fill = \<lparr>vt_symbol = ''BTC'', direction = SHORT, price = 101, trade_volume = 2\<rparr>"


definition steep_params :: strategy_params where
  "steep_params = \<lparr>lever = 10, first_margin = 20, first_margin_add = 20, adding_number = 2,
                    amount_multiplie = 1, price_multiple = 2, sp_profit_target = 1 / 100,
                    opp_ratio = 1 / 10, sp_mode = 1\<rparr>"




definition queue_manager :: SimpleMartinManager where
  "queue_manager = \<lparr>s_mode = 1, s_lever = 10, s_first_margin = 50, s_first_margin_add = 50,
                     s_amount_multiplier = 12 / 10, s_price_multiple = 11 / 10,
                     s_opp_ratio = 25 / 1000, buy_orders_count = 1, contract_size = 1,
                     min_order_size = 1, s_avg_price = 0, s_position_size = 0,
                     s_add_count = 0\<rparr>"

definition opened_manager :: SimpleMartinManager where
  "opened_manager = queue_manager\<lparr>s_avg_price := 100, s_position_size := 5\<rparr>"

definition idle_strategy :: MartingaleStrategy where
  "idle_strategy = \<lparr>ms_params = steep_params, stop_flag = False, sellpx = None, maxsz = 10,
                     avgPx = 100, option_hedge = False\<rparr>"

definition missing_order :: exchange where
  "missing_order = \<lparr>older = Returns (Some ''canceled''), cancel_raises = True,
                     open_adds = Some 2, limit1 = Some ''0'', dup_cancel_raises = False,
                     limit2 = None, market_raises = False\<rparr>"

definition live_order :: exchange where
  "live_order = \<lparr>older = Returns (Some ''live''), cancel_raises = False,
                  open_adds = Some 2, limit1 = Some ''0'', dup_cancel_raises = False,
                  limit2 = None, market_raises = False\<rparr>"


definition rejecting_exchange :: exchange where
  "rejecting_exchange = \<lparr>older = Returns (Some ''canceled''), cancel_raises = False,
                          open_adds = Some 2, limit1 = Some ''51008'',
                          dup_cancel_raises = False, limit2 = None, market_raises = True\<rparr>"


section \<open>Properties of the recovery service\<close>

lemma determine_action_fst:
  "fst (determine_recovery_action xp v) =
     (if \<not> direction_consistent v then ''INVALID_DIRECTION''
      else if has_position v then (if has_orders v then ''CONTINUE'' else ''RESET_SELL'')
      else (if has_orders v then ''CANCEL_ORDERS'' else ''NEW_CYCLE''))"
  by (simp add: determine_recovery_action_def Let_def)

lemma validate_flags:
  "has_orders (validate_recovery_data md xp oa act) = (act \<noteq> [])"
  "has_position (validate_recovery_data md xp oa act)
     = (\<exists>p. xp = Some p \<and> 1 / 10 ^ 8 < \<bar>volume p\<bar>)"
  "direction_consistent (validate_recovery_data md xp oa act)
     = (\<not> (\<exists>p. xp = Some p \<and> 1 / 10 ^ 8 < \<bar>volume p\<bar>
              \<and> (if volume p > 0 then 1 else 2) \<noteq> md))"
  "position_order_consistent (validate_recovery_data md xp oa act)
     = (\<not> (\<exists>p. xp = Some p \<and> 1 / 10 ^ 8 < \<bar>volume p\<bar> \<and> 0 < total_volume oa
              \<and> 1 / 10 < \<bar>\<bar>volume p\<bar> - total_volume oa\<bar>
                            / max \<bar>volume p\<bar> (total_volume oa)))"
  by (auto simp: validate_recovery_data_def Let_def split: option.splits)

lemma recover_single_strategy_cases:
  "recover_single_strategy smb md xp oa act =
     (if \<not> has_position (validate_recovery_data md xp oa act) \<and> act = [] then None
      else Some \<lparr>rs_symbol = smb, rs_mode = md,
                 total_position = (case xp of None \<Rightarrow> 0 | Some p \<Rightarrow> volume p),
                 avg_cost_price = (case xp of None \<Rightarrow> 0 | Some p \<Rightarrow> xp_avg_price p),
                 rs_add_count = oa_add_count oa, rs_active_orders = act,
                 recovery_action =
                   fst (determine_recovery_action xp (validate_recovery_data md xp oa act)),
                 confidence =
                   snd (determine_recovery_action xp (validate_recovery_data md xp oa act)),
                 exchange_verified = (xp \<noteq> None)\<rparr>)"
  by (simp add: recover_single_strategy_def Let_def validate_flags(1,2) split: prod.splits)

lemma active_martin_orders_set:
  "set (get_active_martin_orders smb md all_active) =
     od_vt_orderid ` {order \<in> set all_active.
        od_vt_symbol order = smb
        \<and> str_contains (CHR ''M'' # str_int md) (od_reference order)
        \<and> str_contains ''MARTIN'' (py_upper (od_reference order))}"
  by (auto simp: get_active_martin_orders_def)

lemma upper_lower_case: "py_upper ''martin_m1'' = ''MARTIN_M1''"
  by code_simp

lemma add_order_counts:
  "get_active_martin_orders ''BTC'' 1 [add_order] = [''o7'']"
proof -
  have u: "py_upper ''MARTIN_ACCM1_BTC_ADD_1_0007'' = ''MARTIN_ACCM1_BTC_ADD_1_0007''"
    by (simp add: py_upper_def upper_char_def)
  have d: "str_int 1 = ''1''"
    by code_simp
  show ?thesis
    by (simp add: get_active_martin_orders_def add_order_def u d)
qed

lemma recovery_pass_cases:
  "recovery_pass smb md xp oa all_active =
     (let act = get_active_martin_orders smb md all_active;
          v = validate_recovery_data md xp oa act
      in if \<not> has_position v \<and> act = [] then None
         else Some \<lparr>rs_symbol = smb, rs_mode = md,
                    total_position = (case xp of None \<Rightarrow> 0 | Some p \<Rightarrow> volume p),
                    avg_cost_price = (case xp of None \<Rightarrow> 0 | Some p \<Rightarrow> xp_avg_price p),
                    rs_add_count = oa_add_count oa, rs_active_orders = act,
                    recovery_action = fst (determine_recovery_action xp v),
                    confidence = snd (determine_recovery_action xp v),
                    exchange_verified = (xp \<noteq> None)\<rparr>)"
  by (simp add: recovery_pass_def recover_single_strategy_cases Let_def)

lemma invalid_recovery_applied:
  "recovery_pass ''BTC'' 1 (Some short_position) empty_history []
     = Some \<lparr>rs_symbol = ''BTC'', rs_mode = 1, total_position = - 5, avg_cost_price = 100,
             rs_add_count = 0, rs_active_orders = [], recovery_action = ''INVALID_DIRECTION'',
             confidence = 1 / 10, exchange_verified = True\<rparr>"
  by (simp add: recovery_pass_def get_active_martin_orders_def recover_single_strategy_def
      validate_recovery_data_def determine_recovery_action_def short_position_def
      empty_history_def Let_def)

lemma round_add_volume: "py_round (500000 / 97) = 5155"
  by (simp add: py_round_def Let_def)

lemma next_action_after_invalid:
  "check_generate_orders falling_engine
     (default_manager\<lparr>state := (state default_manager)\<lparr>avg_price := 100,
        position_size := - 5, add_count := 0, active_orders := []\<rparr>\<rparr>)
     = [SendOrder \<lparr>req_direction = LONG, req_offset = OPEN, req_type = LIMIT,
                   req_price = 97, req_volume = 5155 / 1000\<rparr>]"
proof -
  let ?m = "default_manager\<lparr>state := (state default_manager)\<lparr>avg_price := 100,
        position_size := - 5, add_count := 0, active_orders := []\<rparr>\<rparr>"
  have p: "calculate_profit_order ?m 97 = Inr None"
    by (simp add: calculate_profit_order_def default_manager_def)
  have v: "round_to_size_tick (1 / 1000) (500 / 97) = Inr (5155 / 1000)"
    by (simp add: round_to_size_tick_def py_div_def round_add_volume)
  have a: "calculate_add_position_order ?m 97
             = Inr (Some \<lparr>req_direction = LONG, req_offset = OPEN, req_type = LIMIT,
                          req_price = 97, req_volume = 5155 / 1000\<rparr>)"
    by (simp add: calculate_add_position_order_def default_manager_def py_pow_def py_div_def
        Let_def v)
  have n: "calculate_next_action ?m 97
             = Inr (Some \<lparr>req_direction = LONG, req_offset = OPEN, req_type = LIMIT,
                          req_price = 97, req_volume = 5155 / 1000\<rparr>)"
    using p a
    by (simp add: calculate_next_action_def calculate_position_management_order_def
        default_manager_def)
  show ?thesis
    using n by (simp add: check_generate_orders_def falling_engine_def send_order_def)
qed

text \<open>
  Claim C1, failing as stated. (a) With a position and, as the only active order of the
  strategy, an add order (no protective order is live), the recovery pass answers
  \<open>CONTINUE\<close>, not \<open>RESET_SELL\<close>: the pair is keyed on any active order. (b) With
  neither position nor order the pass returns no recovery state, so no pass answers
  \<open>NEW_CYCLE\<close>. (c) A short position on a long strategy gives \<open>INVALID_DIRECTION\<close>;
  applying that result writes the position into the manager and leaves it in normal
  mode, and the next order or trade event sends an add order for the strategy.
\<close>

theorem recovery_table_counterexample:
  "(case recovery_pass ''BTC'' 1 (Some long_position) full_history [add_order] of
      None \<Rightarrow> False
    | Some rs \<Rightarrow> rs_active_orders rs = [''o7''] \<and> recovery_action rs = ''CONTINUE'')
   \<and> recovery_pass ''BTC'' 1 None empty_history [] = None
   \<and> (case recovery_pass ''BTC'' 1 (Some short_position) empty_history [] of
        None \<Rightarrow> False
      | Some rs \<Rightarrow>
          recovery_action rs = ''INVALID_DIRECTION''
          \<and> check_generate_orders falling_engine
               (fst (apply_recovery_result falling_engine default_manager rs))
             = [SendOrder \<lparr>req_direction = LONG, req_offset = OPEN, req_type = LIMIT,
                           req_price = 97, req_volume = 5155 / 1000\<rparr>])"
proof (intro conjI)
  show "case recovery_pass ''BTC'' 1 (Some long_position) full_history [add_order] of
      None \<Rightarrow> False
    | Some rs \<Rightarrow> rs_active_orders rs = [''o7''] \<and> recovery_action rs = ''CONTINUE''"
    by (simp add: recovery_pass_def add_order_counts recover_single_strategy_def
        validate_recovery_data_def determine_recovery_action_def long_position_def
        full_history_def Let_def)
  show "recovery_pass ''BTC'' 1 None empty_history [] = None"
    by (simp add: recovery_pass_def get_active_martin_orders_def recover_single_strategy_def
        validate_recovery_data_def Let_def)
  have ap: "fst (apply_recovery_result falling_engine default_manager
               \<lparr>rs_symbol = ''BTC'', rs_mode = 1, total_position = - 5, avg_cost_price = 100,
                rs_add_count = 0, rs_active_orders = [],
                recovery_action = ''INVALID_DIRECTION'',
                confidence = 1 / 10, exchange_verified = True\<rparr>)
        = default_manager\<lparr>state := (state default_manager)\<lparr>avg_price := 100,
            position_size := - 5, add_count := 0, active_orders := []\<rparr>\<rparr>"
    by (simp add: apply_recovery_result_def Let_def)
  show "case recovery_pass ''BTC'' 1 (Some short_position) empty_history [] of
        None \<Rightarrow> False
      | Some rs \<Rightarrow>
          recovery_action rs = ''INVALID_DIRECTION''
          \<and> check_generate_orders falling_engine
               (fst (apply_recovery_result falling_engine default_manager rs))
             = [SendOrder \<lparr>req_direction = LONG, req_offset = OPEN, req_type = LIMIT,
                           req_price = 97, req_volume = 5155 / 1000\<rparr>]"
    unfolding invalid_recovery_applied by (simp add: ap next_action_after_invalid)
qed

text \<open>
  Claim C1, amended. In every recovery pass let has position mean that the exchange
  reports a position of more than 1e-8, and has orders that the engine holds at least one
  active order of the symbol whose reference contains \<open>MARTIN\<close> and \<open>M\<close> with the
  mode, whatever the role of the order. The pass returns no recovery state when both are
  false. Otherwise its action is \<open>INVALID_DIRECTION\<close> when the direction of the
  position is not the mode of the strategy, whatever the pair is, and else
  \<open>CONTINUE\<close> for a position with orders, \<open>RESET_SELL\<close> for a position without
  orders and \<open>CANCEL_ORDERS\<close> for orders without a position. \<open>NEW_CYCLE\<close> is the
  answer of \<open>_determine_recovery_action\<close> for neither, which no pass reaches.
\<close>

theorem recovery_action_table:
  "fst (determine_recovery_action xp v) =
     (if \<not> direction_consistent v then ''INVALID_DIRECTION''
      else if has_position v then (if has_orders v then ''CONTINUE'' else ''RESET_SELL'')
      else (if has_orders v then ''CANCEL_ORDERS'' else ''NEW_CYCLE''))
   \<and> set (get_active_martin_orders smb md all_active) =
       od_vt_orderid ` {order \<in> set all_active.
          od_vt_symbol order = smb
          \<and> str_contains (CHR ''M'' # str_int md) (od_reference order)
          \<and> str_contains ''MARTIN'' (py_upper (od_reference order))}
   \<and> (let act = get_active_martin_orders smb md all_active;
           has_pos = (\<exists>p. xp = Some p \<and> 1 / 10 ^ 8 < \<bar>volume p\<bar>);
           mismatch = (\<exists>p. xp = Some p \<and> 1 / 10 ^ 8 < \<bar>volume p\<bar>
                          \<and> (if volume p > 0 then 1 else 2) \<noteq> md)
       in case recovery_pass smb md xp oa all_active of
            None \<Rightarrow> \<not> has_pos \<and> act = []
          | Some rs \<Rightarrow>
              (has_pos \<or> act \<noteq> [])
              \<and> rs_active_orders rs = act
              \<and> recovery_action rs =
                  (if mismatch then ''INVALID_DIRECTION''
                   else if has_pos then (if act \<noteq> [] then ''CONTINUE'' else ''RESET_SELL'')
                   else ''CANCEL_ORDERS''))"
proof (intro conjI)
  show "fst (determine_recovery_action xp v) =
     (if \<not> direction_consistent v then ''INVALID_DIRECTION''
      else if has_position v then (if has_orders v then ''CONTINUE'' else ''RESET_SELL'')
      else (if has_orders v then ''CANCEL_ORDERS'' else ''NEW_CYCLE''))"
    by (rule determine_action_fst)
  show "set (get_active_martin_orders smb md all_active) =
       od_vt_orderid ` {order \<in> set all_active.
          od_vt_symbol order = smb
          \<and> str_contains (CHR ''M'' # str_int md) (od_reference order)
          \<and> str_contains ''MARTIN'' (py_upper (od_reference order))}"
    by (rule active_martin_orders_set)
  show "let act = get_active_martin_orders smb md all_active;
           has_pos = (\<exists>p. xp = Some p \<and> 1 / 10 ^ 8 < \<bar>volume p\<bar>);
           mismatch = (\<exists>p. xp = Some p \<and> 1 / 10 ^ 8 < \<bar>volume p\<bar>
                          \<and> (if volume p > 0 then 1 else 2) \<noteq> md)
       in case recovery_pass smb md xp oa all_active of
            None \<Rightarrow> \<not> has_pos \<and> act = []
          | Some rs \<Rightarrow>
              (has_pos \<or> act \<noteq> [])
              \<and> rs_active_orders rs = act
              \<and> recovery_action rs =
                  (if mismatch then ''INVALID_DIRECTION''
                   else if has_pos then (if act \<noteq> [] then ''CONTINUE'' else ''RESET_SELL'')
                   else ''CANCEL_ORDERS'')"
    unfolding recovery_pass_cases Let_def determine_action_fst validate_flags
    by auto
qed

theorem recovery_action_table_witness:
  "(case recovery_pass ''BTC'' 1 (Some long_position) full_history [] of
      None \<Rightarrow> False
    | Some rs \<Rightarrow> recovery_action rs = ''RESET_SELL'')
   \<and> (case recovery_pass ''BTC'' 2 (Some long_position) full_history [add_order] of
        None \<Rightarrow> False
      | Some rs \<Rightarrow> recovery_action rs = ''INVALID_DIRECTION'')"
proof -
  have v: "volume long_position = 5" by (simp add: long_position_def)
  have a: "get_active_martin_orders ''BTC'' 1 [] = []"
    by (simp add: get_active_martin_orders_def)
  note w1 = recovery_action_table[where xp = "Some long_position" and smb = "''BTC''"
      and md = 1 and oa = full_history and all_active = "[]"
      and v = "validate_recovery_data 1 (Some long_position) full_history []"]
  note w2 = recovery_action_table[where xp = "Some long_position" and smb = "''BTC''"
      and md = 2 and oa = full_history and all_active = "[add_order]"
      and v = "validate_recovery_data 2 (Some long_position) full_history []"]
  from w1 have "case recovery_pass ''BTC'' 1 (Some long_position) full_history [] of
      None \<Rightarrow> False
    | Some rs \<Rightarrow> recovery_action rs = ''RESET_SELL''"
    by (auto simp: Let_def v a split: option.splits)
  moreover from w2 have "case recovery_pass ''BTC'' 2 (Some long_position) full_history [add_order] of
        None \<Rightarrow> False
      | Some rs \<Rightarrow> recovery_action rs = ''INVALID_DIRECTION''"
    by (auto simp: Let_def v split: option.splits)
  ultimately show ?thesis by blast
qed

lemma determine_confidence:
  "snd (determine_recovery_action (Some p) v) =
     (if \<not> direction_consistent v then 1 / 10
      else (if \<not> has_position v \<and> has_orders v then 8 / 10 else 1)
           * min 1 ((if source p = ''exchange_query'' then 8 / 10 else 5 / 10)
                    + (if position_order_consistent v then 2 / 10 else 0)))"
  by (simp add: determine_recovery_action_def Let_def)

lemma recover_with_position:
  assumes "1 / 10 ^ 8 < \<bar>volume p\<bar>"
  shows "recover_single_strategy smb md (Some p) oa act =
           Some \<lparr>rs_symbol = smb, rs_mode = md,
                 total_position = volume p, avg_cost_price = xp_avg_price p,
                 rs_add_count = oa_add_count oa, rs_active_orders = act,
                 recovery_action =
                   (if (if volume p > 0 then 1 else 2) \<noteq> md then ''INVALID_DIRECTION''
                    else if act = [] then ''RESET_SELL'' else ''CONTINUE''),
                 confidence =
                   (if (if volume p > 0 then 1 else 2) \<noteq> md then 1 / 10
                    else min 1 ((if source p = ''exchange_query'' then 8 / 10 else 5 / 10)
                           + (if position_order_consistent
                                   (validate_recovery_data md (Some p) oa act)
                              then 2 / 10 else 0))),
                 exchange_verified = True\<rparr>"
  using assms
  unfolding recover_single_strategy_cases determine_action_fst determine_confidence
    validate_flags(1,2,3)
  by auto

text \<open>
  Claim C4, failing as stated. Position 5.0 against an order history of 4.0 fails the
  consistency check and the action \<open>RESET_SELL\<close> is computed, but the confidence is
  the base value 0.5, which is not below 0.5. And position 5.0 against an order history
  without filled volume, a gap of 100 percent, does not fail the check at all: it is
  skipped, and the confidence is 0.7.
\<close>

theorem confidence_below_half_counterexample:
  "\<not> position_order_consistent (validate_recovery_data 1 (Some long_position) short_history [])
   \<and> (case recover_single_strategy ''BTC'' 1 (Some long_position) short_history [] of
        None \<Rightarrow> False
      | Some rs \<Rightarrow> recovery_action rs = ''RESET_SELL'' \<and> \<not> confidence rs < 5 / 10)
   \<and> position_order_consistent (validate_recovery_data 1 (Some long_position) empty_history [])
   \<and> (case recover_single_strategy ''BTC'' 1 (Some long_position) empty_history [] of
        None \<Rightarrow> False
      | Some rs \<Rightarrow> confidence rs = 7 / 10)"
  by (simp add: recover_single_strategy_def validate_recovery_data_def
      determine_recovery_action_def long_position_def short_history_def empty_history_def
      Let_def)

text \<open>
  Claim C4, amended. The consistency check of a recovery pass fails exactly when the
  exchange reports a position (of more than 1e-8), the order history holds filled volume
  (a sum above 0), and the two differ by more than 10 percent of the larger. A recovery
  state is still produced then, and its confidence misses the bonus of 0.2: it is 0.1 on
  a direction mismatch, and otherwise 0.5 when the position came from the cache and 0.8
  when it was read by an exchange query. When there is a position and the order history
  holds no filled volume, the check is skipped and counts as passed: the confidence is
  0.1 on a direction mismatch, and otherwise 0.7 from the cache and 1.0 from an exchange
  query.
\<close>

theorem inconsistent_recovery_confidence:
  "position_order_consistent (validate_recovery_data md xp oa act)
     = (\<not> (\<exists>q. xp = Some q \<and> 1 / 10 ^ 8 < \<bar>volume q\<bar> \<and> 0 < total_volume oa
              \<and> 1 / 10 < \<bar>\<bar>volume q\<bar> - total_volume oa\<bar>
                            / max \<bar>volume q\<bar> (total_volume oa)))
   \<and> (1 / 10 ^ 8 < \<bar>volume p\<bar> \<and> 0 < total_volume oa
       \<and> 1 / 10 < \<bar>\<bar>volume p\<bar> - total_volume oa\<bar> / max \<bar>volume p\<bar> (total_volume oa) \<longrightarrow>
       (case recover_single_strategy smb md (Some p) oa act of
          None \<Rightarrow> False
        | Some rs \<Rightarrow>
            recovery_action rs =
              (if (if volume p > 0 then 1 else 2) \<noteq> md then ''INVALID_DIRECTION''
               else if act = [] then ''RESET_SELL'' else ''CONTINUE'')
            \<and> confidence rs =
              (if (if volume p > 0 then 1 else 2) \<noteq> md then 1 / 10
               else if source p = ''exchange_query'' then 8 / 10 else 5 / 10)))
   \<and> (1 / 10 ^ 8 < \<bar>volume p\<bar> \<and> total_volume oa \<le> 0 \<longrightarrow>
       (case recover_single_strategy smb md (Some p) oa act of
          None \<Rightarrow> False
        | Some rs \<Rightarrow>
            recovery_action rs =
              (if (if volume p > 0 then 1 else 2) \<noteq> md then ''INVALID_DIRECTION''
               else if act = [] then ''RESET_SELL'' else ''CONTINUE'')
            \<and> confidence rs =
              (if (if volume p > 0 then 1 else 2) \<noteq> md then 1 / 10
               else if source p = ''exchange_query'' then 1 else 7 / 10)))"
proof (intro conjI impI)
  show "position_order_consistent (validate_recovery_data md xp oa act)
     = (\<not> (\<exists>q. xp = Some q \<and> 1 / 10 ^ 8 < \<bar>volume q\<bar> \<and> 0 < total_volume oa
              \<and> 1 / 10 < \<bar>\<bar>volume q\<bar> - total_volume oa\<bar>
                            / max \<bar>volume q\<bar> (total_volume oa)))"
    by (rule validate_flags(4))
next
  assume a: "1 / 10 ^ 8 < \<bar>volume p\<bar> \<and> 0 < total_volume oa
       \<and> 1 / 10 < \<bar>\<bar>volume p\<bar> - total_volume oa\<bar> / max \<bar>volume p\<bar> (total_volume oa)"
  then have c: "\<not> position_order_consistent (validate_recovery_data md (Some p) oa act)"
    unfolding validate_flags(4) by simp
  from a have h: "1 / 10 ^ 8 < \<bar>volume p\<bar>" by simp
  show "case recover_single_strategy smb md (Some p) oa act of
          None \<Rightarrow> False
        | Some rs \<Rightarrow>
            recovery_action rs =
              (if (if volume p > 0 then 1 else 2) \<noteq> md then ''INVALID_DIRECTION''
               else if act = [] then ''RESET_SELL'' else ''CONTINUE'')
            \<and> confidence rs =
              (if (if volume p > 0 then 1 else 2) \<noteq> md then 1 / 10
               else if source p = ''exchange_query'' then 8 / 10 else 5 / 10)"
    unfolding recover_with_position[OF h] using c by simp
next
  assume a: "1 / 10 ^ 8 < \<bar>volume p\<bar> \<and> total_volume oa \<le> 0"
  then have c: "position_order_consistent (validate_recovery_data md (Some p) oa act)"
    unfolding validate_flags(4) by simp
  from a have h: "1 / 10 ^ 8 < \<bar>volume p\<bar>" by simp
  show "case recover_single_strategy smb md (Some p) oa act of
          None \<Rightarrow> False
        | Some rs \<Rightarrow>
            recovery_action rs =
              (if (if volume p > 0 then 1 else 2) \<noteq> md then ''INVALID_DIRECTION''
               else if act = [] then ''RESET_SELL'' else ''CONTINUE'')
            \<and> confidence rs =
              (if (if volume p > 0 then 1 else 2) \<noteq> md then 1 / 10
               else if source p = ''exchange_query'' then 1 else 7 / 10)"
    unfolding recover_with_position[OF h] using c by simp
qed

theorem inconsistent_recovery_confidence_witness:
  "(case recover_single_strategy ''BTC'' 1 (Some long_position) short_history [''o1''] of
      None \<Rightarrow> False
    | Some rs \<Rightarrow> recovery_action rs = ''CONTINUE'' \<and> confidence rs = 1 / 2)
   \<and> (case recover_single_strategy ''BTC'' 1 (Some long_position) empty_history [''o1''] of
        None \<Rightarrow> False
      | Some rs \<Rightarrow> recovery_action rs = ''CONTINUE'' \<and> confidence rs = 7 / 10)"
proof -
  have h: "1 / 10 ^ 8 < \<bar>volume long_position\<bar> \<and> 0 < total_volume short_history
       \<and> 1 / 10 < \<bar>\<bar>volume long_position\<bar> - total_volume short_history\<bar>
                    / max \<bar>volume long_position\<bar> (total_volume short_history)"
    by (simp add: long_position_def short_history_def)
  have g: "1 / 10 ^ 8 < \<bar>volume long_position\<bar> \<and> total_volume empty_history \<le> 0"
    by (simp add: long_position_def empty_history_def)
  have s: "source long_position = ''exchange_cache''" "volume long_position = 5"
    by (simp_all add: long_position_def)
  note w1 = inconsistent_recovery_confidence[where p = long_position and oa = short_history
      and md = 1 and smb = "''BTC''" and act = "[''o1'']" and xp = None]
  note w2 = inconsistent_recovery_confidence[where p = long_position and oa = empty_history
      and md = 1 and smb = "''BTC''" and act = "[''o1'']" and xp = None]
  from w1 h s have "case recover_single_strategy ''BTC'' 1 (Some long_position) short_history [''o1''] of
      None \<Rightarrow> False
    | Some rs \<Rightarrow> recovery_action rs = ''CONTINUE'' \<and> confidence rs = 1 / 2"
    by (auto split: option.splits)
  moreover from w2 g s have "case recover_single_strategy ''BTC'' 1 (Some long_position) empty_history [''o1''] of
        None \<Rightarrow> False
      | Some rs \<Rightarrow> recovery_action rs = ''CONTINUE'' \<and> confidence rs = 7 / 10"
    by (auto split: option.splits)
  ultimately show ?thesis by blast
qed

section \<open>Properties of the trade-fill update\<close>

lemma reset_state_fields:
  "state (reset_martin_state m) =
     (state m)\<lparr>avg_price := 0, position_size := 0, add_count := 0, total_margin_used := 0,
               active_orders := [], execution_mode := NORMAL\<rparr>"
  by (simp add: reset_martin_state_def)

text \<open>
  Claim C10. A fill of non-negative volume applied by \<open>on_trade_update\<close> to a state
  with a non-negative position (the lot tick being non-negative) always succeeds and
  leaves a non-negative position; and when a sell-direction fill brings the position to
  at most one lot tick, the state is reset as a whole: average price 0, position 0, add
  count 0, margin used 0, no active orders, execution mode \<open>NORMAL\<close>.
\<close>

theorem trade_update_position:
  assumes "0 \<le> position_size (state m)" and "0 \<le> trade_volume t" and "0 \<le> size_tick m"
  shows "\<exists>m'. on_trade_update m t = Inr m'
           \<and> 0 \<le> position_size (state m')
           \<and> (vt_symbol t = m_symbol m \<and> direction t = SHORT
                \<and> position_size (state m) - trade_volume t \<le> size_tick m \<longrightarrow>
                avg_price (state m') = 0 \<and> position_size (state m') = 0
                \<and> add_count (state m') = 0 \<and> total_margin_used (state m') = 0
                \<and> active_orders (state m') = [] \<and> execution_mode (state m') = NORMAL)"
proof (cases "vt_symbol t = m_symbol m")
  case False
  then show ?thesis using assms by (simp add: on_trade_update_def)
next
  case same: True
  show ?thesis
  proof (cases "direction t")
    case LONG
    show ?thesis
    proof (cases "position_size (state m) > 0")
      case True
      then have "position_size (state m) + trade_volume t \<noteq> 0" using assms(2) by linarith
      then show ?thesis using same LONG True assms
        by (simp add: on_trade_update_def py_div_def Let_def)
    next
      case False
      then show ?thesis using same LONG assms
        by (simp add: on_trade_update_def)
    qed
  next
    case SHORT
    then show ?thesis using same assms
      by (simp add: on_trade_update_def Let_def reset_state_fields)
  next
    case NET
    then show ?thesis using same assms
      by (simp add: on_trade_update_def)
  qed
qed

theorem trade_update_position_witness:
  "on_trade_update holding_manager closing_fill =
     Inr (holding_manager\<lparr>state := (state holding_manager)\<lparr>avg_price := 0, position_size := 0,
            add_count := 0, total_margin_used := 0, active_orders := [],
            execution_mode := NORMAL\<rparr>\<rparr>)"
proof -
  have h: "0 \<le> position_size (state holding_manager)" "0 \<le> trade_volume closing_fill"
    "0 \<le> size_tick holding_manager"
    by (simp_all add: holding_manager_def closing_fill_def)
  have g: "vt_symbol closing_fill = m_symbol holding_manager \<and> direction closing_fill = SHORT
      \<and> position_size (state holding_manager) - trade_volume closing_fill
            \<le> size_tick holding_manager"
    by (simp add: holding_manager_def closing_fill_def)
  from trade_update_position[OF h] g obtain m' where
    m': "on_trade_update holding_manager closing_fill = Inr m'"
      "avg_price (state m') = 0" "position_size (state m') = 0"
      "add_count (state m') = 0" "total_margin_used (state m') = 0"
      "active_orders (state m') = []" "execution_mode (state m') = NORMAL"
    by blast
  have "on_trade_update holding_manager closing_fill =
     Inr (holding_manager\<lparr>state := (state holding_manager)\<lparr>avg_price := 0, position_size := 0,
            add_count := 0, total_margin_used := 0, active_orders := [],
            execution_mode := NORMAL\<rparr>\<rparr>)"
    by (simp add: on_trade_update_def holding_manager_def closing_fill_def Let_def
        reset_martin_state_def)
  with m' show ?thesis by simp
qed

section \<open>Properties of the persistence manager\<close>


section \<open>Properties of the ladder table\<close>

lemma ladder_loop_length:
  "ladder_loop fl P ctVal minSz dp tm opp n i prev = Inr rows \<Longrightarrow> length rows = n"
  by (induction n arbitrary: i prev rows) (auto split: sum.splits)

lemma ladder_loop_step:
  "ladder_loop fl P ctVal minSz dp tm opp n i prev = Inr rows \<Longrightarrow> j < n \<Longrightarrow>
     ladder_step fl P ctVal minSz dp tm opp (i + j) ((prev # rows) ! j) = Inr (rows ! j)"
proof (induction n arbitrary: i prev rows j)
  case 0
  then show ?case by simp
next
  case (Suc n)
  from Suc.prems(1) obtain row rest where
    row: "ladder_step fl P ctVal minSz dp tm opp i prev = Inr row"
    and rest: "ladder_loop fl P ctVal minSz dp tm opp n (Suc i) row = Inr rest"
    and rows: "rows = row # rest"
    by (auto split: sum.splits)
  show ?case
  proof (cases j)
    case 0
    then show ?thesis using row rows by simp
  next
    case (Suc j')
    then have "j' < n" using Suc.prems(2) by simp
    from Suc.IH[OF rest this] show ?thesis using Suc rows by simp
  qed
qed

lemma raw_size_Inr:
  assumes "raw_size fl margin lv px ctVal = Inr r"
  shows "r = fl (fl (margin * lv) / fl (px * ctVal))" and "fl (px * ctVal) \<noteq> 0"
  using assms by (auto simp: raw_size_def py_div_def split: if_splits)

lemma martingale_strategy_rows:
  assumes "martingale_strategy fl P ip ctVal minSz minSz_str = Inr (orders, cost)"
  obtains dp where "decimal_places_of minSz_str = Inr dp"
    and "length orders = adding_number P + 1"
    and "older_price (orders ! 0) = ip"
    and "older_pos (orders ! 0)
           = trunc_places fl dp (fl (fl (first_margin P * lever P) / fl (ip * ctVal)))"
    and "average_cost (orders ! 0) = ip"
    and "total_pos (orders ! 0) = older_pos (orders ! 0)"
    and "sp_mode P = 1 \<or> sp_mode P = 2"
    and "\<And>k. 1 \<le> k \<Longrightarrow> k \<le> adding_number P \<Longrightarrow>
           ladder_step fl P ctVal minSz dp (sum_margins P (adding_number P))
             (if sp_mode P = 1 then opp_ratio P else - opp_ratio P) (k - 1) (orders ! (k - 1))
           = Inr (orders ! k)"
proof -
  from assms obtain dp raw burst rows row0 where
    dp: "decimal_places_of minSz_str = Inr dp"
    and raw: "raw_size fl (first_margin P) (lever P) ip ctVal = Inr raw"
    and md: "sp_mode P = 1 \<or> sp_mode P = 2"
    and row0: "row0 = \<lparr>older_price = ip, older_margin = first_margin P,
                 average_cost = ip, older_pos = trunc_places fl dp raw,
                 total_pos = trunc_places fl dp raw, burst_price = burst,
                 profit_price = (if sp_mode P = 1 then ip * (1 + sp_profit_target P)
                                 else ip * (1 - sp_profit_target P)),
                 olderid = 1\<rparr>"
    and loop: "ladder_loop fl P ctVal minSz dp (sum_margins P (adding_number P))
                 (if sp_mode P = 1 then opp_ratio P else - opp_ratio P)
                 (adding_number P) 0 row0 = Inr rows"
    and orders: "orders = row0 # rows"
    by (auto simp: martingale_strategy_def Let_def split: sum.splits if_splits)
  have step: "ladder_step fl P ctVal minSz dp (sum_margins P (adding_number P))
             (if sp_mode P = 1 then opp_ratio P else - opp_ratio P) (k - 1) (orders ! (k - 1))
           = Inr (orders ! k)" if "1 \<le> k" "k \<le> adding_number P" for k
  proof -
    have "k - 1 < adding_number P" using that by simp
    from ladder_loop_step[OF loop this] show ?thesis using orders that by (simp add: nth_Cons')
  qed
  show thesis
  proof (rule that[OF dp])
    show "length orders = adding_number P + 1"
      using ladder_loop_length[OF loop] orders by simp
    show "older_price (orders ! 0) = ip" using orders row0 by simp
    show "older_pos (orders ! 0)
           = trunc_places fl dp (fl (fl (first_margin P * lever P) / fl (ip * ctVal)))"
      using orders row0 raw_size_Inr(1)[OF raw] by simp
    show "average_cost (orders ! 0) = ip" using orders row0 by simp
    show "total_pos (orders ! 0) = older_pos (orders ! 0)" using orders row0 by simp
    show "sp_mode P = 1 \<or> sp_mode P = 2" by (rule md)
    show "\<And>k. 1 \<le> k \<Longrightarrow> k \<le> adding_number P \<Longrightarrow>
           ladder_step fl P ctVal minSz dp (sum_margins P (adding_number P))
             (if sp_mode P = 1 then opp_ratio P else - opp_ratio P) (k - 1) (orders ! (k - 1))
           = Inr (orders ! k)"
      by (rule step)
  qed
qed

lemma ladder_step_fields:
  assumes "ladder_step fl P ctVal minSz dp tm opp i prev = Inr row"
  shows "older_price row = older_price prev * (1 - opp * price_multiple P ^ i)"
    and "older_margin row = first_margin_add P * amount_multiplie P ^ i"
    and "older_pos row =
           (if i + 1 \<le> 25
            then trunc_places fl dp
                   (fl (fl (older_margin row * lever P) / fl (older_price row * ctVal)))
            else max minSz (py_round_nd minSz dp))"
    and "total_pos row = total_pos prev + older_pos row"
    and "total_pos row \<noteq> 0"
    and "average_cost row =
           (average_cost prev * total_pos prev + older_pos row * older_price row)
             / (total_pos prev + older_pos row)"
    and "olderid row = i + 1"
  using assms
  by (auto simp: ladder_step_def raw_size_def py_div_def Let_def split: sum.splits if_splits)




lemma decimal_places_examples:
  "decimal_places_of ''1'' = Inr 0"
  "decimal_places_of ''1.0'' = Inr 0"
  "decimal_places_of ''0.01'' = Inr 2"
  "decimal_places_of ''0.05'' = Inr 2"
  "decimal_places_of ''1e-05'' = Inr 0"
  "decimal_places_of ''1.5e-05'' = Inl ValueError"
  by (simp_all add: decimal_places_of_def after_point_def)

lemma steep_table:
  "martingale_strategy (\<lambda>x. x) steep_params 100 1 1 ''1'' =
     Inr ([\<lparr>older_price = 100, older_margin = 20, average_cost = 100, older_pos = 2,
             total_pos = 2, burst_price = 70, profit_price = 101, olderid = 1\<rparr>,
           \<lparr>older_price = 90, older_margin = 20, average_cost = 95, older_pos = 2,
             total_pos = 4, burst_price = 80, profit_price = 9595 / 100, olderid = 1\<rparr>,
           \<lparr>older_price = 72, older_margin = 20, average_cost = 262 / 3, older_pos = 2,
             total_pos = 6, burst_price = 232 / 3, profit_price = 26462 / 300, olderid = 2\<rparr>],
          126)"
  by (simp add: martingale_strategy_def decimal_places_examples steep_params_def
      ladder_step_def raw_size_def burst_of_def py_div_def trunc_places_def py_int_def
      Let_def eval_nat_numeral)




lemma queue_loop_step:
  "queue_loop M n i bp a sz = (Inr rows, st) \<Longrightarrow> j < n \<Longrightarrow>
     queue_step M (i + j) (if j = 0 then bp else q_price (rows ! (j - 1)))
        (if j = 0 then a else q_avg_price (rows ! (j - 1)))
        (if j = 0 then sz else q_position_size (rows ! (j - 1))) = Inr (rows ! j)
     \<and> length rows = n"
proof (induction n arbitrary: i bp a sz rows j)
  case 0
  then show ?case by simp
next
  case (Suc n)
  from Suc.prems(1) obtain row rest where
    row: "queue_step M i bp a sz = Inr row"
    and rest: "queue_loop M n (Suc i) (q_price row) (q_avg_price row) (q_position_size row)
                 = (Inr rest, st)"
    and rows: "rows = row # rest"
    by (auto split: sum.splits prod.splits)
  show ?case
  proof (cases j)
    case 0
    have "length rest = n"
    proof (cases n)
      case 0
      then show ?thesis using rest by simp
    next
      case (Suc n')
      then have "0 < n" by simp
      from Suc.IH[OF rest this] show ?thesis by simp
    qed
    then show ?thesis using 0 row rows by simp
  next
    case (Suc j')
    then have "j' < n" using Suc.prems(2) by simp
    from Suc.IH[OF rest this] show ?thesis using Suc rows by (cases j') simp_all
  qed
qed

lemma queue_step_price:
  assumes "queue_step M i bp a sz = Inr row"
  shows "q_price row = (if s_mode M = 1 then bp * (1 - s_opp_ratio M * s_price_multiple M ^ i)
                        else bp * (1 + s_opp_ratio M * s_price_multiple M ^ i))"
  using assms by (auto simp: queue_step_def Let_def split: sum.splits)

lemma queue_prices:
  assumes "calculate_buy_orders_queue M base 0 mas = (Inr (Some rows), M')" and "j < length rows"
  shows "q_price (rows ! j) =
           (if j = 0 then base else q_price (rows ! (j - 1)))
             * (if s_mode M = 1 then 1 - s_opp_ratio M * s_price_multiple M ^ j
                else 1 + s_opp_ratio M * s_price_multiple M ^ j)"
proof -
  from assms have md: "s_mode M = 1 \<or> s_mode M = 2"
    by (auto simp: calculate_buy_orders_queue_def split: if_splits)
  with assms(1) obtain st where
    loop: "queue_loop M (buy_orders_count M) 0 base (s_avg_price M) (s_position_size M)
             = (Inr rows, st)"
    by (auto simp: calculate_buy_orders_queue_def split: if_splits prod.splits sum.splits)
  have len: "length rows = buy_orders_count M"
  proof (cases "buy_orders_count M")
    case 0
    then show ?thesis using loop by simp
  next
    case (Suc n)
    then have "0 < buy_orders_count M" by simp
    from queue_loop_step[OF loop this] show ?thesis by simp
  qed
  then have "j < buy_orders_count M" using assms(2) by simp
  from queue_loop_step[OF loop this] queue_step_price show ?thesis
    by (auto split: if_splits)
qed

lemma py_round_5: "py_round 5 = 5"
  by (simp add: py_round_def)



lemma opened_queue:
  "calculate_buy_orders_queue opened_manager 100 0 0
       = (Inr (Some [\<lparr>q_price = 975 / 10, q_volume = 5, q_sequence = 1, q_avg_price = 100,
                      q_position_size = 10\<rparr>]),
          opened_manager\<lparr>s_avg_price := 100, s_position_size := 10\<rparr>)"
proof -
  have r: "py_round (200 / 39) = 5" by (simp add: py_round_def Let_def)
  have q: "queue_step opened_manager 0 100 100 5
      = Inr \<lparr>q_price = 975 / 10, q_volume = 5, q_sequence = 1, q_avg_price = 100,
             q_position_size = 10\<rparr>"
    by (simp add: queue_step_def opened_manager_def queue_manager_def py_div_def
        round_to_size_tick_def Let_def r)
  show ?thesis
    using q by (simp add: calculate_buy_orders_queue_def opened_manager_def queue_manager_def)
qed


text \<open>
  Claim C6, failing as stated. With trigger ratio 0.1 and step multiplier 2 the first add
  level of a long ladder anchored at 100 is priced at 90, that is \<open>100 * (1 - 0.1 * 2 ^ 0)\<close>,
  not at \<open>100 * (1 - 0.1 * 2 ^ 1) = 80\<close>.
\<close>

theorem ladder_prices_counterexample:
  "(case martingale_strategy (\<lambda>x. x) steep_params 100 1 1 ''1'' of
      Inl e \<Rightarrow> False
    | Inr (orders, cost) \<Rightarrow>
        older_price (orders ! 1) = 90
        \<and> older_price (orders ! 1)
             \<noteq> older_price (orders ! 0)
                  * (1 - opp_ratio steep_params * price_multiple steep_params ^ 1))"
  unfolding steep_table by (simp add: steep_params_def)

text \<open>
  Claim C6, amended. Level \<open>k\<close> of the table of \<open>martingale_strategy\<close> (for \<open>k\<close>
  from 1 to the number of add levels) is priced from the level before it with the
  exponent \<open>k - 1\<close>: the factor is \<open>1 - opp_ratio * price_multiple ^ (k - 1)\<close> for a
  long strategy and \<open>1 + opp_ratio * price_multiple ^ (k - 1)\<close> for a short one, and
  level 0 is the anchor price. The queue of the refactored manager is priced the same way.
  The prices are functions of the parameters alone.
\<close>

theorem ladder_prices:
  "(martingale_strategy fl P ip ctVal minSz minSz_str = Inr (orders, cost)
      \<and> 1 \<le> k \<and> k \<le> adding_number P \<longrightarrow>
      older_price (orders ! 0) = ip
      \<and> (sp_mode P = 1 \<or> sp_mode P = 2)
      \<and> (sp_mode P = 1 \<longrightarrow>
           older_price (orders ! k)
             = older_price (orders ! (k - 1)) * (1 - opp_ratio P * price_multiple P ^ (k - 1)))
      \<and> (sp_mode P = 2 \<longrightarrow>
           older_price (orders ! k)
             = older_price (orders ! (k - 1)) * (1 + opp_ratio P * price_multiple P ^ (k - 1))))
   \<and> (calculate_buy_orders_queue M base 0 mas = (Inr (Some rows), M') \<and> j < length rows \<longrightarrow>
        q_price (rows ! j) =
          (if j = 0 then base else q_price (rows ! (j - 1)))
            * (if s_mode M = 1 then 1 - s_opp_ratio M * s_price_multiple M ^ j
               else 1 + s_opp_ratio M * s_price_multiple M ^ j))"
proof (intro conjI impI)
  assume a: "martingale_strategy fl P ip ctVal minSz minSz_str = Inr (orders, cost)
      \<and> 1 \<le> k \<and> k \<le> adding_number P"
  then have t: "martingale_strategy fl P ip ctVal minSz minSz_str = Inr (orders, cost)"
    and k: "1 \<le> k" "k \<le> adding_number P"
    by simp_all
  from t obtain dp where
    r0: "older_price (orders ! 0) = ip"
    and md: "sp_mode P = 1 \<or> sp_mode P = 2"
    and st: "\<And>k. 1 \<le> k \<Longrightarrow> k \<le> adding_number P \<Longrightarrow>
           ladder_step fl P ctVal minSz dp (sum_margins P (adding_number P))
             (if sp_mode P = 1 then opp_ratio P else - opp_ratio P) (k - 1) (orders ! (k - 1))
           = Inr (orders ! k)"
    by (rule martingale_strategy_rows) blast
  note f = ladder_step_fields(1)[OF st[OF k]]
  show "older_price (orders ! 0) = ip" by (rule r0)
  show "sp_mode P = 1 \<or> sp_mode P = 2" by (rule md)
  show "older_price (orders ! k)
          = older_price (orders ! (k - 1)) * (1 - opp_ratio P * price_multiple P ^ (k - 1))"
    if "sp_mode P = 1"
    using f that by simp
  show "older_price (orders ! k)
          = older_price (orders ! (k - 1)) * (1 + opp_ratio P * price_multiple P ^ (k - 1))"
    if "sp_mode P = 2"
    using f that by simp
next
  assume "calculate_buy_orders_queue M base 0 mas = (Inr (Some rows), M') \<and> j < length rows"
  then show "q_price (rows ! j) =
          (if j = 0 then base else q_price (rows ! (j - 1)))
            * (if s_mode M = 1 then 1 - s_opp_ratio M * s_price_multiple M ^ j
               else 1 + s_opp_ratio M * s_price_multiple M ^ j)"
    using queue_prices by blast
qed

theorem ladder_prices_witness:
  "(case martingale_strategy (\<lambda>x. x) steep_params 100 1 1 ''1'' of
      Inl e \<Rightarrow> False
    | Inr (orders, cost) \<Rightarrow>
        older_price (orders ! 0) = 100 \<and> older_price (orders ! 1) = 90
        \<and> older_price (orders ! 2) = 72)
   \<and> (case calculate_buy_orders_queue opened_manager 100 0 0 of
        (Inr (Some rows), M') \<Rightarrow> q_price (rows ! 0) = 975 / 10
      | _ \<Rightarrow> False)"
proof -
  obtain orders cost where
    t: "martingale_strategy (\<lambda>x. x) steep_params 100 1 1 ''1'' = Inr (orders, cost)"
    using steep_table by blast
  obtain rows M' where q: "calculate_buy_orders_queue opened_manager 100 0 0 = (Inr (Some rows), M')"
    and len: "length rows = 1"
    using opened_queue by simp
  have p: "sp_mode steep_params = 1" "opp_ratio steep_params = 1 / 10"
    "price_multiple steep_params = 2" "adding_number steep_params = 2"
    "s_mode opened_manager = 1" "s_opp_ratio opened_manager = 25 / 1000"
    by (simp_all add: steep_params_def opened_manager_def queue_manager_def)
  note w1 = ladder_prices[where fl = "\<lambda>x. x" and P = steep_params and ip = 100 and ctVal = 1
      and minSz = 1 and minSz_str = "''1''" and orders = orders and cost = cost and k = 1
      and M = opened_manager and base = 100 and mas = 0 and rows = rows and M' = M' and j = 0]
  note w2 = ladder_prices[where fl = "\<lambda>x. x" and P = steep_params and ip = 100 and ctVal = 1
      and minSz = 1 and minSz_str = "''1''" and orders = orders and cost = cost and k = 2
      and M = opened_manager and base = 100 and mas = 0 and rows = rows and M' = M' and j = 0]
  from w1 w2 t q len p show ?thesis by simp
qed






section \<open>Properties of the order query\<close>












section \<open>Properties of the self-heal check\<close>

lemma accepted_orders_append:
  "accepted_orders (xs @ ys) = accepted_orders xs + accepted_orders ys"
  by (induction xs rule: accepted_orders.induct) simp_all

lemma placed_sizes_append: "placed_sizes (xs @ ys) = placed_sizes xs @ placed_sizes ys"
  by (induction xs rule: placed_sizes.induct) simp_all

lemma place_limit_events:
  "accepted_orders (place_limit_then_fallback_market ex amount px) \<le> 1"
  "set (placed_sizes (place_limit_then_fallback_market ex amount px)) = {amount}"
  "\<exists>post. place_limit_then_fallback_market ex amount px
            = PlaceLimit px amount (limit1 ex) # post"
  by (auto simp: place_limit_then_fallback_market_def market_in_try_def split: option.splits)

lemma calc_profit_events:
  assumes "calc_profit_and_maybe_open_option st ex = Some (profit, st1, evs)"
  shows "accepted_orders evs = 0" and "placed_sizes evs = []"
    and "stop_flag st1 = stop_flag st" and "maxsz st1 = maxsz st"
    and "ms_params st1 = ms_params st"
  using assms
  by (auto simp: calc_profit_and_maybe_open_option_def Let_def split: option.splits if_splits)





lemma sell_order_accepted: "accepted_orders (snd (sell_order st ex avg amount)) \<le> 1"
proof (cases "calc_profit_and_maybe_open_option st ex")
  case None
  then show ?thesis by (simp add: sell_order_def)
next
  case (Some r)
  obtain profit st1 evs where r: "r = (profit, st1, evs)" by (cases r)
  show ?thesis
    using Some r calc_profit_events(1)[of st ex profit st1 evs] place_limit_events(1)
    by (simp add: sell_order_def Let_def accepted_orders_append)
qed


lemma ensure_sell_order_accepted:
  "ensure_sell_order st ex pos minSz d avg tickSz = Inr (st', evs) \<Longrightarrow> accepted_orders evs \<le> 1"
  using sell_order_accepted[of st ex avg "py_round_nd (min (pos - minSz) (maxsz st)) d"]
  by (auto simp: ensure_sell_order_def Let_def
      split: if_splits outcome.splits option.splits prod.splits)

lemma ensure_sell_order_live:
  assumes "older ex = Returns (Some s)" and "s = ''live'' \<or> s = ''partially_filled''"
  shows "ensure_sell_order st ex pos minSz d avg tickSz
           = Inr (st, if stop_flag st then [] else [GetOrder])"
  using assms by (auto simp: ensure_sell_order_def)

lemma heal_missing_order:
  "ensure_sell_order idle_strategy missing_order 5 1 0 100 (1 / 10)
     = Inr (idle_strategy\<lparr>sellpx := Some 101\<rparr>,
            [GetOrder, CancelSellOrder, GetOrderList, PlaceLimit 101 4 (Some ''0'')])"
proof -
  have r: "py_round_nd 4 0 = 4" by (simp add: py_round_nd_def py_round_def)
  have c: "calc_profit_and_maybe_open_option idle_strategy missing_order
             = Some (101 / 100, idle_strategy, [GetOrderList])"
    by (simp add: calc_profit_and_maybe_open_option_def idle_strategy_def missing_order_def
        steep_params_def Let_def)
  have p: "place_limit_then_fallback_market missing_order 4 101 = [PlaceLimit 101 4 (Some ''0'')]"
    by (simp add: place_limit_then_fallback_market_def missing_order_def)
  have m: "sp_mode (ms_params idle_strategy) = 1"
    by (simp add: idle_strategy_def steep_params_def)
  have s: "sell_order idle_strategy missing_order 100 4
             = (idle_strategy\<lparr>sellpx := Some 101\<rparr>, [GetOrderList, PlaceLimit 101 4 (Some ''0'')])"
    by (simp add: sell_order_def c m p)
  have f: "\<not> stop_flag idle_strategy" "maxsz idle_strategy = 10"
    "older missing_order = Returns (Some ''canceled'')"
    by (simp_all add: idle_strategy_def missing_order_def)
  show ?thesis
    by (simp add: ensure_sell_order_def f r s)
qed

lemma place_limit_count:
  "length (placed_sizes (place_limit_then_fallback_market ex amount px)) \<le> 4"
  by (auto simp: place_limit_then_fallback_market_def market_in_try_def split: option.splits)

lemma sell_order_count: "length (placed_sizes (snd (sell_order st ex avg amount))) \<le> 4"
proof (cases "calc_profit_and_maybe_open_option st ex")
  case None
  then show ?thesis by (simp add: sell_order_def)
next
  case (Some r)
  obtain profit st1 evs where r: "r = (profit, st1, evs)" by (cases r)
  show ?thesis
    using Some r calc_profit_events(2)[of st ex profit st1 evs] place_limit_count
    by (simp add: sell_order_def Let_def placed_sizes_append)
qed

lemma ensure_sell_order_count:
  "ensure_sell_order st ex pos minSz d avg tickSz = Inr (st', evs) \<Longrightarrow>
     length (placed_sizes evs) \<le> 4"
  using sell_order_count[of st ex avg "py_round_nd (min (pos - minSz) (maxsz st)) d"]
  by (auto simp: ensure_sell_order_def Let_def
      split: if_splits outcome.splits option.splits prod.splits)


lemma heal_rejected:
  "ensure_sell_order (idle_strategy\<lparr>sellpx := sp\<rparr>) rejecting_exchange 5 1 0 100 (1 / 10)
     = Inr (idle_strategy\<lparr>sellpx := Some 101\<rparr>,
            [GetOrder, CancelSellOrder, GetOrderList, PlaceLimit 101 4 (Some ''51008''),
             PlaceMarket 4, PlaceMarket 4])"
proof -
  have r: "py_round_nd 4 0 = 4" by (simp add: py_round_nd_def py_round_def)
  show ?thesis
    by (simp add: ensure_sell_order_def sell_order_def calc_profit_and_maybe_open_option_def
        place_limit_then_fallback_market_def market_in_try_def idle_strategy_def
        rejecting_exchange_def steep_params_def r Let_def)
qed




text \<open>
  Claim C3, failing as stated. The exchange rejects the limit order of the check (code
  51008) and the market orders raise, so nothing is filled; the check has submitted three
  orders, and the next check, which finds the order missing again, submits three more.
\<close>

theorem self_heal_idempotent_counterexample:
  "ensure_sell_order idle_strategy rejecting_exchange 5 1 0 100 (1 / 10)
     = Inr (idle_strategy\<lparr>sellpx := Some 101\<rparr>,
            [GetOrder, CancelSellOrder, GetOrderList, PlaceLimit 101 4 (Some ''51008''),
             PlaceMarket 4, PlaceMarket 4])
   \<and> ensure_sell_order (idle_strategy\<lparr>sellpx := Some 101\<rparr>) rejecting_exchange 5 1 0 100 (1 / 10)
     = Inr (idle_strategy\<lparr>sellpx := Some 101\<rparr>,
            [GetOrder, CancelSellOrder, GetOrderList, PlaceLimit 101 4 (Some ''51008''),
             PlaceMarket 4, PlaceMarket 4])
   \<and> length (placed_sizes
        ([GetOrder, CancelSellOrder, GetOrderList, PlaceLimit 101 4 (Some ''51008''),
          PlaceMarket 4, PlaceMarket 4]
         @ [GetOrder, CancelSellOrder, GetOrderList, PlaceLimit 101 4 (Some ''51008''),
            PlaceMarket 4, PlaceMarket 4])) = 6"
proof -
  have a: "ensure_sell_order idle_strategy rejecting_exchange 5 1 0 100 (1 / 10)
     = Inr (idle_strategy\<lparr>sellpx := Some 101\<rparr>,
            [GetOrder, CancelSellOrder, GetOrderList, PlaceLimit 101 4 (Some ''51008''),
             PlaceMarket 4, PlaceMarket 4])"
    using heal_rejected[of None] by (simp add: idle_strategy_def)
  show ?thesis using a heal_rejected[of "Some 101"] by simp
qed

text \<open>
  Claim C3, amended. When the protective order is reported live or partially filled, the
  self-heal check returns the worker unchanged, places no order and cancels nothing. One
  check places at most four orders (two limit orders and two market orders), and the
  exchange accepts at most one protective order of it. Of two checks in a row on the same
  position, when the order is reported live or partially filled at the second, the second
  places nothing and the two together place what the first placed; and when this is so
  whenever the first had an order accepted, the two have at most one protective order
  accepted in total.
\<close>

theorem self_heal_idempotent:
  "(older ex = Returns (Some s) \<and> (s = ''live'' \<or> s = ''partially_filled'') \<longrightarrow>
      (\<exists>evs. ensure_sell_order st ex pos minSz d avg tickSz = Inr (st, evs)
             \<and> placed_sizes evs = [] \<and> CancelSellOrder \<notin> set evs))
   \<and> (ensure_sell_order st exa pos minSz d avg tickSz = Inr (sta, evsa) \<longrightarrow>
        length (placed_sizes evsa) \<le> 4 \<and> accepted_orders evsa \<le> 1)
   \<and> (ensure_sell_order st exa pos minSz d avg tickSz = Inr (sta, evsa)
       \<and> ensure_sell_order sta exb pos minSz d avg tickSz = Inr (stb, evsb)
       \<and> (older exb = Returns (Some ''live'')
            \<or> older exb = Returns (Some ''partially_filled'')) \<longrightarrow>
       stb = sta \<and> placed_sizes evsb = []
       \<and> placed_sizes (evsa @ evsb) = placed_sizes evsa
       \<and> length (placed_sizes (evsa @ evsb)) \<le> 4)
   \<and> (ensure_sell_order st exa pos minSz d avg tickSz = Inr (sta, evsa)
       \<and> ensure_sell_order sta exb pos minSz d avg tickSz = Inr (stb, evsb)
       \<and> (0 < accepted_orders evsa \<longrightarrow>
            older exb = Returns (Some ''live'')
            \<or> older exb = Returns (Some ''partially_filled'')) \<longrightarrow>
       accepted_orders (evsa @ evsb) \<le> 1)"
proof (intro conjI impI)
  assume "older ex = Returns (Some s) \<and> (s = ''live'' \<or> s = ''partially_filled'')"
  then have "ensure_sell_order st ex pos minSz d avg tickSz
           = Inr (st, if stop_flag st then [] else [GetOrder])"
    using ensure_sell_order_live by blast
  then show "\<exists>evs. ensure_sell_order st ex pos minSz d avg tickSz = Inr (st, evs)
             \<and> placed_sizes evs = [] \<and> CancelSellOrder \<notin> set evs"
    by simp
next
  assume r1: "ensure_sell_order st exa pos minSz d avg tickSz = Inr (sta, evsa)"
  show "length (placed_sizes evsa) \<le> 4" by (rule ensure_sell_order_count[OF r1])
  show "accepted_orders evsa \<le> 1" by (rule ensure_sell_order_accepted[OF r1])
next
  assume a: "ensure_sell_order st exa pos minSz d avg tickSz = Inr (sta, evsa)
       \<and> ensure_sell_order sta exb pos minSz d avg tickSz = Inr (stb, evsb)
       \<and> (older exb = Returns (Some ''live'')
            \<or> older exb = Returns (Some ''partially_filled''))"
  then have r1: "ensure_sell_order st exa pos minSz d avg tickSz = Inr (sta, evsa)"
    and r2: "ensure_sell_order sta exb pos minSz d avg tickSz = Inr (stb, evsb)"
    by simp_all
  from a obtain s where s: "older exb = Returns (Some s)"
    "s = ''live'' \<or> s = ''partially_filled''"
    by auto
  from ensure_sell_order_live[OF s, of sta pos minSz d avg tickSz] r2
  have e: "stb = sta \<and> placed_sizes evsb = []" by (auto split: if_splits)
  then show "stb = sta" "placed_sizes evsb = []" by simp_all
  from e show "placed_sizes (evsa @ evsb) = placed_sizes evsa"
    by (simp add: placed_sizes_append)
  from e show "length (placed_sizes (evsa @ evsb)) \<le> 4"
    using ensure_sell_order_count[OF r1] by (simp add: placed_sizes_append)
next
  assume a: "ensure_sell_order st exa pos minSz d avg tickSz = Inr (sta, evsa)
       \<and> ensure_sell_order sta exb pos minSz d avg tickSz = Inr (stb, evsb)
       \<and> (0 < accepted_orders evsa \<longrightarrow>
            older exb = Returns (Some ''live'')
            \<or> older exb = Returns (Some ''partially_filled''))"
  then have r1: "ensure_sell_order st exa pos minSz d avg tickSz = Inr (sta, evsa)"
    and r2: "ensure_sell_order sta exb pos minSz d avg tickSz = Inr (stb, evsb)"
    by simp_all
  show "accepted_orders (evsa @ evsb) \<le> 1"
  proof (cases "0 < accepted_orders evsa")
    case True
    with a obtain s where s: "older exb = Returns (Some s)"
      "s = ''live'' \<or> s = ''partially_filled''"
      by auto
    from ensure_sell_order_live[OF s, of sta pos minSz d avg tickSz] r2
    have "accepted_orders evsb = 0" by (auto split: if_splits)
    then show ?thesis
      using ensure_sell_order_accepted[OF r1] by (simp add: accepted_orders_append)
  next
    case False
    then show ?thesis
      using ensure_sell_order_accepted[OF r2] by (simp add: accepted_orders_append)
  qed
qed

theorem self_heal_idempotent_witness:
  "ensure_sell_order idle_strategy missing_order 5 1 0 100 (1 / 10)
     = Inr (idle_strategy\<lparr>sellpx := Some 101\<rparr>,
            [GetOrder, CancelSellOrder, GetOrderList, PlaceLimit 101 4 (Some ''0'')])
   \<and> ensure_sell_order (idle_strategy\<lparr>sellpx := Some 101\<rparr>) live_order 5 1 0 100 (1 / 10)
       = Inr (idle_strategy\<lparr>sellpx := Some 101\<rparr>, [GetOrder])
   \<and> placed_sizes ([GetOrder, CancelSellOrder, GetOrderList, PlaceLimit 101 4 (Some ''0'')]
        @ [GetOrder]) = [4]
   \<and> accepted_orders ([GetOrder, CancelSellOrder, GetOrderList, PlaceLimit 101 4 (Some ''0'')]
        @ [GetOrder]) \<le> 1"
proof -
  have l: "older live_order = Returns (Some ''live'')
           \<and> (''live'' = ''live'' \<or> ''live'' = ''partially_filled'')"
    by (simp add: live_order_def)
  have second: "ensure_sell_order (idle_strategy\<lparr>sellpx := Some 101\<rparr>) live_order 5 1 0 100 (1 / 10)
       = Inr (idle_strategy\<lparr>sellpx := Some 101\<rparr>, [GetOrder])"
    by (simp add: ensure_sell_order_def live_order_def idle_strategy_def)
  note w = self_heal_idempotent[where ex = live_order and s = "''live''"
      and st = idle_strategy and exa = missing_order and exb = live_order
      and pos = 5 and minSz = 1 and d = 0 and avg = 100 and tickSz = "1 / 10"
      and sta = "idle_strategy\<lparr>sellpx := Some 101\<rparr>"
      and evsa = "[GetOrder, CancelSellOrder, GetOrderList, PlaceLimit 101 4 (Some ''0'')]"
      and stb = "idle_strategy\<lparr>sellpx := Some 101\<rparr>" and evsb = "[GetOrder]"]
  have c: "accepted_orders
             ([GetOrder, CancelSellOrder, GetOrderList, PlaceLimit 101 4 (Some ''0'')]
              @ [GetOrder]) \<le> 1"
    using w l heal_missing_order second by simp
  have p: "placed_sizes ([GetOrder, CancelSellOrder, GetOrderList, PlaceLimit 101 4 (Some ''0'')]
        @ [GetOrder]) = [4]"
    using w l heal_missing_order second by simp
  from c p heal_missing_order second show ?thesis by simp
qed

end
